theory Spec2Isabelle
  imports Main "HOL-Library.Word"
begin

unbundle bit_operations_syntax

section \<open>Byte buffers\<close>

type_synonym byte = "8 word"

text \<open>
  The toolkit buffer: \<open>buffer\<close> is the memory seen from the base pointer (bytes past
  \<open>blength\<close> hold whatever was there before), \<open>blength\<close> is the source's \<open>length\<close>
  field and \<open>offset\<close> the read cursor.
\<close>

record WXBuffer =
  buffer :: "nat \<Rightarrow> byte"
  blength :: nat
  offset :: nat

definition WXBuffer_Empty :: "WXBuffer \<Rightarrow> WXBuffer" where
  "WXBuffer_Empty b = b\<lparr>blength := 0, offset := 0\<rparr>"

definition WXBuffer_Append :: "WXBuffer \<Rightarrow> byte list \<Rightarrow> WXBuffer" where
  "WXBuffer_Append b dat =
     b\<lparr>buffer := (\<lambda>i. if blength b \<le> i \<and> i < blength b + length dat
                        then dat ! (i - blength b) else buffer b i),
       blength := blength b + length dat\<rparr>"

text \<open>
  Modelled from the spec: \<open>WXBuffer_Unpack\<close> (buffer.c of the toolkit is not among the
  sources).  \<open>n\<close> is a 16-bit and \<open>N\<close> a 32-bit big-endian unsigned integer; unpacking
  advances the cursor and yields the failure sentinel (here \<open>None\<close>) on insufficient input.
\<close>

definition unpack_n :: "WXBuffer \<Rightarrow> (16 word \<times> WXBuffer) option" where
  "unpack_n b =
     (if offset b + 2 \<le> blength b
      then Some (push_bit 8 (ucast (buffer b (offset b))) OR ucast (buffer b (offset b + 1)),
                 b\<lparr>offset := offset b + 2\<rparr>)
      else None)"

definition unpack_N :: "WXBuffer \<Rightarrow> (32 word \<times> WXBuffer) option" where
  "unpack_N b =
     (if offset b + 4 \<le> blength b
      then Some (push_bit 24 (ucast (buffer b (offset b))) OR
                 push_bit 16 (ucast (buffer b (offset b + 1))) OR
                 push_bit 8 (ucast (buffer b (offset b + 2))) OR
                 ucast (buffer b (offset b + 3)),
                 b\<lparr>offset := offset b + 4\<rparr>)
      else None)"

text \<open>The format \<open>nnnnnn\<close> of the DNS header and \<open>nnNn\<close> of a resource record.\<close>

definition unpack_header ::
  "WXBuffer \<Rightarrow> ((16 word \<times> 16 word \<times> 16 word \<times> 16 word \<times> 16 word \<times> 16 word) \<times> WXBuffer) option" where
  "unpack_header b =
     (case unpack_n b of None \<Rightarrow> None | Some (rTxnId, b1) \<Rightarrow>
      case unpack_n b1 of None \<Rightarrow> None | Some (rFlags, b2) \<Rightarrow>
      case unpack_n b2 of None \<Rightarrow> None | Some (rQueries, b3) \<Rightarrow>
      case unpack_n b3 of None \<Rightarrow> None | Some (rAnswers, b4) \<Rightarrow>
      case unpack_n b4 of None \<Rightarrow> None | Some (rAuthority, b5) \<Rightarrow>
      case unpack_n b5 of None \<Rightarrow> None | Some (rAdditional, b6) \<Rightarrow>
        Some ((rTxnId, rFlags, rQueries, rAnswers, rAuthority, rAdditional), b6))"

definition unpack_rr ::
  "WXBuffer \<Rightarrow> ((16 word \<times> 16 word \<times> 32 word \<times> 16 word) \<times> WXBuffer) option" where
  "unpack_rr b =
     (case unpack_n b of None \<Rightarrow> None | Some (rType, b1) \<Rightarrow>
      case unpack_n b1 of None \<Rightarrow> None | Some (rClass, b2) \<Rightarrow>
      case unpack_N b2 of None \<Rightarrow> None | Some (rTTL, b3) \<Rightarrow>
      case unpack_n b3 of None \<Rightarrow> None | Some (rLen, b4) \<Rightarrow>
        Some ((rType, rClass, rTTL, rLen), b4))"

section \<open>C strings\<close>

definition cstr :: "byte list \<Rightarrow> byte list" where
  "cstr bs = takeWhile (\<lambda>b. b \<noteq> 0) bs"

definition chars :: "byte list \<Rightarrow> string" where
  "chars bs = map (\<lambda>b. char_of (uint b)) bs"

definition bytes :: "string \<Rightarrow> byte list" where
  "bytes s = map (\<lambda>c. of_nat (of_char c)) s"

definition memread :: "(nat \<Rightarrow> byte) \<Rightarrow> nat \<Rightarrow> nat \<Rightarrow> byte list" where
  "memread mem p n = map mem [p..<p + n]"

section \<open>DNS names\<close>

text \<open>
  The local variables of \<open>parseQName\<close>.  \<open>retVal\<close> is the linked list of fragments, with
  \<open>[]\<close> for \<open>NULL\<close>; a fragment holds the \<open>slen\<close> bytes copied by \<open>memcpy\<close>.
\<close>

record qname_state =
  ptr :: nat
  qoffset :: nat
  limit :: nat
  redirect :: bool
  slen :: nat
  retVal :: "byte list list"

text \<open>One pass through the head of the loop body: read the length byte and follow a
  compression pointer.\<close>

definition qname_read :: "(nat \<Rightarrow> byte) \<Rightarrow> nat \<Rightarrow> qname_state \<Rightarrow> qname_state" where
  "qname_read mem len s =
     (let s1 = s\<lparr>slen := unat (mem (ptr s)), ptr := ptr s + 1,
                  qoffset := (if redirect s then qoffset s else qoffset s + 1)\<rparr>
      in if slen s1 AND 0xC0 = 0xC0
         then (let tgt = push_bit 8 (slen s1 AND 0x3F) OR unat (mem (ptr s1))
               in s1\<lparr>qoffset := (if redirect s1 then qoffset s1 else qoffset s1 + 1),
                      ptr := tgt + 1, limit := len, slen := unat (mem tgt), redirect := True\<rparr>)
         else s1)"

definition qname_segment :: "(nat \<Rightarrow> byte) \<Rightarrow> qname_state \<Rightarrow> qname_state" where
  "qname_segment mem s =
     s\<lparr>retVal := retVal s @ [memread mem (ptr s) (slen s)],
       ptr := ptr s + slen s,
       qoffset := (if redirect s then qoffset s else qoffset s + slen s)\<rparr>"

partial_function (option) parseQName_loop ::
  "(nat \<Rightarrow> byte) \<Rightarrow> nat \<Rightarrow> qname_state \<Rightarrow> qname_state option" where
  "parseQName_loop mem len s =
     (if qoffset s < limit s
      then (let s1 = qname_read mem len s
            in if slen s1 = 0 then Some s1
               else parseQName_loop mem len (qname_segment mem s1))
      else Some s)"

declare parseQName_loop.simps [code]

text \<open>
  \<open>slen\<close> is not initialised in the source; when the loop body never runs \<open>retVal\<close> is
  still \<open>NULL\<close>, so the function returns \<open>NULL\<close> whatever the final test reads.  The
  allocator of the host never returns \<open>NULL\<close>.
\<close>

definition parseQName :: "WXBuffer \<Rightarrow> int \<Rightarrow> (byte list list \<times> WXBuffer) option" where
  "parseQName msgBuffer maxLen =
     (case parseQName_loop (buffer msgBuffer) (blength msgBuffer)
             \<lparr>ptr = offset msgBuffer, qoffset = offset msgBuffer,
              limit = (if maxLen < 0 then blength msgBuffer
                       else offset msgBuffer + nat maxLen),
              redirect = False, slen = 0, retVal = []\<rparr> of
        None \<Rightarrow> None
      | Some s \<Rightarrow>
          (let b = (if maxLen < 0 then msgBuffer\<lparr>offset := qoffset s\<rparr> else msgBuffer)
           in if qoffset s > limit s \<or> slen s \<noteq> 0 then Some ([], b)
              else Some (retVal s, b)))"

text \<open>
  \<open>skipQName\<close>: \<open>ptr\<close> always equals \<open>buffer + offset\<close>, so the loop state is the
  cursor and the last \<open>slen\<close>; the result is the return code and the buffer with its
  cursor moved.  When the cursor already equals the length the source reads its
  uninitialised \<open>slen\<close>; the model starts it at 1 and so answers \<open>-1\<close> there (the callers
  break on either answer, since the unpack that follows finds no input).
\<close>

function skipQName_loop :: "(nat \<Rightarrow> byte) \<Rightarrow> nat \<Rightarrow> nat \<Rightarrow> nat \<Rightarrow> nat \<times> nat" where
  "skipQName_loop mem len off sl0 =
     (if off < len
      then (let sl = unat (mem off)
            in if sl AND 0xC0 = 0xC0 then (off + 1 + 1, 0)
               else if sl = 0 then (off + 1, sl)
               else skipQName_loop mem len (off + 1 + sl) sl)
      else (off, sl0))"
  by pat_completeness auto
termination
  by (relation "measure (\<lambda>(mem, len, off, sl0). len - off)") auto

definition skipQName :: "WXBuffer \<Rightarrow> int \<times> WXBuffer" where
  "skipQName msgBuffer =
     (case skipQName_loop (buffer msgBuffer) (blength msgBuffer) (offset msgBuffer) 1 of
        (off, sl) \<Rightarrow>
          (if off > blength msgBuffer \<or> sl \<noteq> 0 then -1 else 0, msgBuffer\<lparr>offset := off\<rparr>))"

section \<open>Address text\<close>

text \<open>\<open>sprintf\<close> with \<open>%d\<close>, for a value that is not negative.\<close>

fun decimal :: "nat \<Rightarrow> string" where
  "decimal n = (if n < 10 then [''0123456789'' ! n]
                else decimal (n div 10) @ [''0123456789'' ! (n mod 10)])"

declare decimal.simps [simp del]

definition hexNibble :: "string" where
  "hexNibble = ''0123456789abcdef''"

definition cvtIPv4 :: "byte list \<Rightarrow> string" where
  "cvtIPv4 dat = decimal (unat (dat ! 0)) @ ''.'' @ decimal (unat (dat ! 1)) @ ''.'' @
                 decimal (unat (dat ! 2)) @ ''.'' @ decimal (unat (dat ! 3))"

text \<open>The four nibbles of a non-zero quad, most significant first.\<close>

definition quadHex :: "16 word \<Rightarrow> string" where
  "quadHex quad = [hexNibble ! unat (drop_bit 12 quad AND 0x0F), hexNibble ! unat (drop_bit 8 quad AND 0x0F),
                   hexNibble ! unat (drop_bit 4 quad AND 0x0F), hexNibble ! unat (quad AND 0x0F)]"

function cvtIPv6_loop :: "byte list \<Rightarrow> nat \<Rightarrow> string" where
  "cvtIPv6_loop dat addrIdx =
     (if addrIdx < 8
      then (let quad = push_bit 8 (ucast (dat ! (2 * addrIdx))) OR ucast (dat ! (2 * addrIdx + 1))
            in (if quad \<noteq> 0 then quadHex quad else []) @
               (if addrIdx \<noteq> 7 then '':'' else []) @ cvtIPv6_loop dat (addrIdx + 1))
      else [])"
  by pat_completeness auto
termination
  by (relation "measure (\<lambda>(dat, addrIdx). 8 - addrIdx)") auto

declare cvtIPv6_loop.simps [simp del]

definition cvtIPv6 :: "byte list \<Rightarrow> string" where
  "cvtIPv6 dat = cvtIPv6_loop dat 0"

section \<open>Discovery: decoding one response\<close>

text \<open>
  A device record as its reader sees it: the four texts as C strings and the port.
\<close>

record CastDeviceInfo =
  id :: string
  name :: string
  model :: string
  ipAddr :: string
  port :: "16 word"

text \<open>
  The record \<open>wrk\<close> in memory.  The arrays \<open>id\<close>, \<open>name\<close> and \<open>model\<close> have 256 bytes and
  nothing longer than 255 characters is ever copied into them, so they are kept as the
  C strings they hold.  \<open>ipAddr[32]\<close> is filled by an unbounded \<open>strcpy\<close> and \<open>port\<close> lies
  directly behind it: \<open>ipAddr_port\<close> is the 40 bytes from \<open>ipAddr[0]\<close> to the pointer
  \<open>next\<close>, on the usual 64-bit little-endian layout: 32 bytes of \<open>ipAddr\<close>, the two bytes
  of \<open>port\<close> with the low byte first, and six bytes of padding.  A text of 40 or more
  characters would overwrite \<open>next\<close>, and the list of results with it.
\<close>

record wrk_memory =
  id_text :: string
  name_text :: string
  model_text :: string
  ipAddr_port :: "byte list"

text \<open>\<open>memset(&wrk, 0, sizeof(wrk))\<close>, \<open>wrk.port = v\<close> and \<open>strcpy(wrk.ipAddr, src)\<close>.\<close>

definition wrk_cleared :: wrk_memory where
  "wrk_cleared = \<lparr>id_text = [], name_text = [], model_text = [], ipAddr_port = replicate 40 0\<rparr>"

definition store_port :: "16 word \<Rightarrow> wrk_memory \<Rightarrow> wrk_memory" where
  "store_port v w = w\<lparr>ipAddr_port := (ipAddr_port w)[32 := ucast v, 33 := ucast (drop_bit 8 v)]\<rparr>"

definition strcpy_ipAddr :: "byte list \<Rightarrow> wrk_memory \<Rightarrow> wrk_memory option" where
  "strcpy_ipAddr src w =
     (let s = cstr src
      in if length s \<ge> 40 then None
         else Some (w\<lparr>ipAddr_port := s @ [0] @ drop (length s + 1) (ipAddr_port w)\<rparr>))"

text \<open>
  What a reader of the record gets: \<open>ipAddr\<close> as the C string that starts at \<open>ipAddr[0]\<close>
  (it runs on into \<open>port\<close> when the array holds no terminator), and \<open>port\<close>.
\<close>

definition load_port :: "wrk_memory \<Rightarrow> 16 word" where
  "load_port w = push_bit 8 (ucast (ipAddr_port w ! 33)) OR ucast (ipAddr_port w ! 32)"

definition device_info :: "wrk_memory \<Rightarrow> CastDeviceInfo" where
  "device_info w =
     \<lparr>id = id_text w, name = name_text w, model = model_text w,
      ipAddr = chars (cstr (ipAddr_port w)), port = load_port w\<rparr>"

definition "googlecast_label = ''_googlecast''"
definition "tcp_label = ''_tcp''"
definition "local_label = ''local''"

text \<open>
  The working state while a response is decoded: the message buffer, the record under
  construction and the scratch text buffer \<open>txtBuff\<close> (as the C string it holds).
\<close>

record decode_state =
  msgBuffer :: WXBuffer
  wrk :: wrk_memory
  txtBuff :: string

text \<open>
  One character string of a TXT record: \<open>tptr\<close> points behind its length byte \<open>sl\<close>.
  The string is copied to \<open>txtBuff\<close> (what \<open>strncpy\<close> and the terminator leave there,
  read as a C string), matched against the three keys, and the cursor moves on.
\<close>

definition txt_segment :: "nat \<Rightarrow> nat \<Rightarrow> decode_state \<Rightarrow> decode_state" where
  "txt_segment tptr sl st =
     (let st1 = st\<lparr>txtBuff := chars (cstr (memread (buffer (msgBuffer st)) tptr sl))\<rparr>;
          txt = txtBuff st1;
          w = wrk st1;
          w' = (if take 3 txt = ''id='' then w\<lparr>id_text := drop 3 txt\<rparr>
                else if take 3 txt = ''fn='' then w\<lparr>name_text := drop 3 txt\<rparr>
                else if take 3 txt = ''md='' then w\<lparr>model_text := drop 3 txt\<rparr>
                else w)
      in st1\<lparr>wrk := w',
             msgBuffer := (msgBuffer st1)\<lparr>offset := offset (msgBuffer st1) + (sl + 1)\<rparr>\<rparr>)"

text \<open>The TXT loop: \<open>tptr\<close> is the read pointer, \<open>rLen\<close> the bytes of record data left.\<close>

function txt_loop :: "nat \<Rightarrow> nat \<Rightarrow> decode_state \<Rightarrow> nat \<times> decode_state" where
  "txt_loop tptr rLen st =
     (if rLen > 0
      then (let sl = unat (buffer (msgBuffer st) tptr)
            in if sl \<ge> rLen then (rLen, st)
               else txt_loop (tptr + 1 + sl) (rLen - (sl + 1)) (txt_segment (tptr + 1) sl st))
      else (rLen, st))"
  by pat_completeness auto
termination
  by (relation "measure (\<lambda>(tptr, rLen, st). rLen)") auto

declare txt_loop.simps [simp del]

text \<open>
  The dispatch on the type of an additional record: the record data left to skip and the
  state after the branch.
\<close>

definition record_content :: "16 word \<Rightarrow> nat \<Rightarrow> decode_state \<Rightarrow> nat \<times> decode_state" where
  "record_content rType rLen st =
     (let b = msgBuffer st
      in if rType = 1 then
           (rLen, if rLen = 4 then st\<lparr>txtBuff := cvtIPv4 (memread (buffer b) (offset b) 4)\<rparr>
                  else st)
         else if rType = 16 then txt_loop (offset b) rLen st
         else if rType = 28 then
           (rLen, if rLen = 16 then st\<lparr>txtBuff := cvtIPv6 (memread (buffer b) (offset b) 16)\<rparr>
                  else st)
         else if rType = 33 then
           (rLen, if rLen \<ge> 6
                  then st\<lparr>wrk := store_port (push_bit 8 (ucast (buffer b (offset b + 4)))
                                               OR ucast (buffer b (offset b + 5))) (wrk st)\<rparr>
                  else st)
         else (rLen, st))"

text \<open>An additional record, from the dispatch to the final \<open>msgBuffer.offset += rLen\<close>.\<close>

definition additional_record :: "16 word \<Rightarrow> nat \<Rightarrow> decode_state \<Rightarrow> decode_state" where
  "additional_record rType rLen st =
     (case record_content rType rLen st of
        (rLen', st') \<Rightarrow> st'\<lparr>msgBuffer := (msgBuffer st')\<lparr>offset := offset (msgBuffer st') + rLen'\<rparr>\<rparr>)"

text \<open>
  The two record loops.  \<open>n\<close> counts the records still to read; \<open>None\<close> is the
  \<open>break\<close> that leaves the loop early (\<open>idx < rAuthority\<close>, \<open>idx < rAdditional\<close>).
\<close>

fun authority_loop :: "nat \<Rightarrow> WXBuffer \<Rightarrow> WXBuffer option" where
  "authority_loop 0 b = Some b"
| "authority_loop (Suc n) b =
     (case skipQName b of (rc, b1) \<Rightarrow>
        if rc < 0 then None
        else (case unpack_rr b1 of None \<Rightarrow> None
              | Some ((rType, rClass, rTTL, rLen), b2) \<Rightarrow>
                  authority_loop n (b2\<lparr>offset := offset b2 + unat rLen\<rparr>)))"

fun additional_loop :: "nat \<Rightarrow> decode_state \<Rightarrow> decode_state option" where
  "additional_loop 0 st = Some st"
| "additional_loop (Suc n) st =
     (case skipQName (msgBuffer st) of (rc, b1) \<Rightarrow>
        if rc < 0 then None
        else (case unpack_rr b1 of None \<Rightarrow> None
              | Some ((rType, rClass, rTTL, rLen), b2) \<Rightarrow>
                  additional_loop n (additional_record rType (unat rLen) (st\<lparr>msgBuffer := b2\<rparr>))))"

text \<open>
  What the body of the receive loop does with one datagram after it was appended to the
  message buffer: \<open>Continue\<close> drops the datagram and reads on, \<open>Break\<close> leaves the receive
  loop of the family, \<open>Device\<close> appends a copy of \<open>wrk\<close> (given as its reader sees it).
  The outer \<open>option\<close> is \<open>None\<close> when the name decoder does not return.
\<close>

datatype outcome = Continue | Break | Device CastDeviceInfo

definition decode_response :: "decode_state \<Rightarrow> outcome option" where
  "decode_response st =
     (case unpack_header (msgBuffer st) of
        None \<Rightarrow> Some Continue
      | Some ((rTxnId, rFlags, rQueries, rAnswers, rAuthority, rAdditional), b1) \<Rightarrow>
          if rTxnId \<noteq> 0xFEED \<or> rFlags \<noteq> 0x8400 \<or> rQueries \<noteq> 0 \<or> rAnswers \<noteq> 1
          then Some Continue
          else
          (case parseQName b1 (-1) of
             None \<Rightarrow> None
           | Some (names, b2) \<Rightarrow>
               if names = [] then Some Break
               else
               (case unpack_rr b2 of
                  None \<Rightarrow> Some Break
                | Some ((rType, rClass, rTTL, rLen), b3) \<Rightarrow>
                    if rType \<noteq> 0x0c \<or> rClass AND 0x7FFF \<noteq> 0x01 then Some Continue
                    else if map (\<lambda>f. chars (cstr f)) names \<noteq> [googlecast_label, tcp_label, local_label]
                    then Some Continue
                    else
                    (case parseQName b3 (uint rLen) of
                       None \<Rightarrow> None
                     | Some (names2, b4) \<Rightarrow>
                         (let w = (if names2 \<noteq> [] then (wrk st)\<lparr>name_text := chars (cstr (hd names2))\<rparr>
                                   else wrk st);
                              b5 = b4\<lparr>offset := offset b4 + unat rLen\<rparr>
                          in case authority_loop (unat rAuthority) b5 of
                               None \<Rightarrow> Some Continue
                             | Some b6 \<Rightarrow>
                                 (case additional_loop (unat rAdditional) (st\<lparr>msgBuffer := b6, wrk := w\<rparr>) of
                                    None \<Rightarrow> Some Continue
                                  | Some st' \<Rightarrow> Some (Device (device_info (wrk st')))))))))"

section \<open>Canned test data\<close>

text \<open>The two canned datagrams of the test mode.\<close>

definition tstRespOne :: "byte list" where
  "tstRespOne =
    [0xFE, 0xED, 0x84, 0x00, 0x00, 0x00, 0x00, 0x01, 0x00, 0x00, 0x00, 0x03,
     0x0B, 0x5F, 0x67, 0x6F, 0x6F, 0x67, 0x6C, 0x65, 0x63, 0x61, 0x73, 0x74,
     0x04, 0x5F, 0x74, 0x63, 0x70, 0x05, 0x6C, 0x6F, 0x63, 0x61, 0x6C, 0x00,
     0x00, 0x0C, 0x00, 0x01, 0x00, 0x00, 0x00, 0x78, 0x00, 0x2E, 0x2B, 0x43,
     0x68, 0x72, 0x6F, 0x6D, 0x65, 0x63, 0x61, 0x73, 0x74, 0x2D, 0x32, 0x62,
     0x36, 0x33, 0x39, 0x37, 0x30, 0x68, 0x62, 0x63, 0x32, 0x32, 0x68, 0x32,
     0x36, 0x62, 0x36, 0x62, 0x32, 0x61, 0x30, 0x34, 0x39, 0x32, 0x38, 0x32,
     0x35, 0x64, 0x62, 0x38, 0x64, 0x32, 0xC0, 0x0C, 0xC0, 0x2E, 0x00, 0x10,
     0x80, 0x01, 0x00, 0x00, 0x11, 0x94, 0x00, 0xB3, 0x23, 0x69, 0x64, 0x3D,
     0x36, 0x33, 0x39, 0x37, 0x30, 0x68, 0x62, 0x63, 0x32, 0x32, 0x68, 0x32,
     0x36, 0x62, 0x36, 0x62, 0x32, 0x61, 0x30, 0x34, 0x39, 0x32, 0x38, 0x32,
     0x35, 0x64, 0x62, 0x38, 0x64, 0x32, 0x66, 0x34, 0x23, 0x63, 0x64, 0x3D,
     0x43, 0x42, 0x33, 0x30, 0x31, 0x31, 0x41, 0x35, 0x34, 0x46, 0x46, 0x46,
     0x46, 0x34, 0x46, 0x36, 0x41, 0x45, 0x41, 0x30, 0x44, 0x37, 0x43, 0x39,
     0x43, 0x36, 0x42, 0x46, 0x44, 0x41, 0x37, 0x44, 0x13, 0x72, 0x6D, 0x3D,
     0x46, 0x38, 0x43, 0x41, 0x46, 0x42, 0x39, 0x37, 0x41, 0x46, 0x41, 0x33,
     0x36, 0x31, 0x30, 0x46, 0x05, 0x76, 0x65, 0x3D, 0x30, 0x35, 0x0D, 0x6D,
     0x64, 0x3D, 0x43, 0x68, 0x72, 0x6F, 0x6D, 0x65, 0x63, 0x61, 0x73, 0x74,
     0x12, 0x69, 0x63, 0x3D, 0x2F, 0x73, 0x65, 0x74, 0x75, 0x70, 0x2F, 0x69,
     0x63, 0x6F, 0x6E, 0x2E, 0x70, 0x6E, 0x67, 0x09, 0x66, 0x6E, 0x3D, 0x44,
     0x65, 0x6E, 0x20, 0x54, 0x56, 0x07, 0x63, 0x61, 0x3D, 0x34, 0x31, 0x30,
     0x31, 0x04, 0x73, 0x74, 0x3D, 0x30, 0x0F, 0x62, 0x73, 0x3D, 0x46, 0x41,
     0x38, 0x46, 0x43, 0x41, 0x39, 0x32, 0x31, 0x30, 0x41, 0x32, 0x04, 0x6E,
     0x66, 0x3D, 0x31, 0x03, 0x72, 0x73, 0x3D, 0xC0, 0x2E, 0x00, 0x21, 0x80,
     0x01, 0x00, 0x00, 0x00, 0x78, 0x00, 0x2D, 0x00, 0x00, 0x00, 0x00, 0x1F,
     0x49, 0x24, 0x30, 0x35, 0x34, 0x32, 0x37, 0x39, 0x30, 0x66, 0x2D, 0x61,
     0x66, 0x30, 0x36, 0x2D, 0x66, 0x38, 0x36, 0x61, 0x2D, 0x31, 0x66, 0x31,
     0x62, 0x2D, 0x36, 0x34, 0x38, 0x39, 0x38, 0x30, 0x39, 0x30, 0x66, 0x39,
     0x66, 0x34, 0xC0, 0x1D, 0xC1, 0x2D, 0x00, 0x01, 0x80, 0x01, 0x00, 0x00,
     0x00, 0x78, 0x00, 0x04, 0x0A, 0x0C, 0x01, 0x8D]"

definition tstRespTwo :: "byte list" where
  "tstRespTwo =
    [0xFE, 0xED, 0x84, 0x00, 0x00, 0x00, 0x00, 0x01, 0x00, 0x00, 0x00, 0x04,
     0x0B, 0x5F, 0x67, 0x6F, 0x6F, 0x67, 0x6C, 0x65, 0x63, 0x61, 0x73, 0x74,
     0x04, 0x5F, 0x74, 0x63, 0x70, 0x05, 0x6C, 0x6F, 0x63, 0x61, 0x6C, 0x00,
     0x00, 0x0C, 0x00, 0x01, 0x00, 0x00, 0x00, 0x78, 0x00, 0x2E, 0x2B, 0x43,
     0x68, 0x72, 0x6F, 0x6D, 0x65, 0x63, 0x61, 0x73, 0x74, 0x2D, 0x36, 0x62,
     0x30, 0x68, 0x33, 0x62, 0x32, 0x36, 0x30, 0x32, 0x33, 0x64, 0x32, 0x33,
     0x32, 0x65, 0x30, 0x37, 0x32, 0x61, 0x32, 0x62, 0x65, 0x32, 0x38, 0x61,
     0x32, 0x34, 0x62, 0x37, 0x62, 0x37, 0xC0, 0x0C, 0xC0, 0x2E, 0x00, 0x10,
     0x80, 0x01, 0x00, 0x00, 0x11, 0x94, 0x00, 0xC3, 0x23, 0x69, 0x64, 0x3D,
     0x36, 0x62, 0x30, 0x68, 0x33, 0x62, 0x32, 0x36, 0x30, 0x32, 0x33, 0x64,
     0x32, 0x33, 0x32, 0x65, 0x30, 0x37, 0x32, 0x61, 0x32, 0x62, 0x65, 0x32,
     0x38, 0x61, 0x32, 0x34, 0x62, 0x37, 0x62, 0x37, 0x23, 0x63, 0x64, 0x3D,
     0x43, 0x34, 0x45, 0x32, 0x41, 0x41, 0x37, 0x42, 0x41, 0x43, 0x33, 0x44,
     0x41, 0x30, 0x41, 0x30, 0x39, 0x37, 0x38, 0x37, 0x44, 0x34, 0x45, 0x44,
     0x36, 0x32, 0x30, 0x35, 0x35, 0x44, 0x44, 0x37, 0x13, 0x72, 0x6D, 0x3D,
     0x37, 0x32, 0x32, 0x45, 0x34, 0x31, 0x41, 0x36, 0x35, 0x30, 0x33, 0x36,
     0x34, 0x36, 0x43, 0x45, 0x05, 0x76, 0x65, 0x3D, 0x30, 0x35, 0x13, 0x6D,
     0x64, 0x3D, 0x43, 0x68, 0x72, 0x6F, 0x6D, 0x65, 0x63, 0x61, 0x73, 0x74,
     0x20, 0x55, 0x6C, 0x74, 0x72, 0x61, 0x12, 0x69, 0x63, 0x3D, 0x2F, 0x73,
     0x65, 0x74, 0x75, 0x70, 0x2F, 0x69, 0x63, 0x6F, 0x6E, 0x2E, 0x70, 0x6E,
     0x67, 0x13, 0x66, 0x6E, 0x3D, 0x54, 0x53, 0x54, 0x20, 0x43, 0x68, 0x72,
     0x6F, 0x6D, 0x65, 0x20, 0x50, 0x61, 0x6E, 0x65, 0x6C, 0x07, 0x63, 0x61,
     0x3D, 0x34, 0x31, 0x30, 0x31, 0x04, 0x73, 0x74, 0x3D, 0x30, 0x0F, 0x62,
     0x73, 0x3D, 0x46, 0x41, 0x38, 0x46, 0x43, 0x41, 0x37, 0x38, 0x34, 0x35,
     0x41, 0x32, 0x04, 0x6E, 0x66, 0x3D, 0x31, 0x03, 0x72, 0x73, 0x3D, 0xC0,
     0x2E, 0x00, 0x21, 0x80, 0x01, 0x00, 0x00, 0x00, 0x78, 0x00, 0x2D, 0x00,
     0x00, 0x00, 0x00, 0x1F, 0x49, 0x24, 0x38, 0x32, 0x32, 0x66, 0x36, 0x61,
     0x34, 0x30, 0x2D, 0x34, 0x32, 0x39, 0x38, 0x2D, 0x32, 0x32, 0x37, 0x63,
     0x2D, 0x32, 0x39, 0x39, 0x63, 0x2D, 0x30, 0x64, 0x37, 0x34, 0x39, 0x33,
     0x38, 0x32, 0x66, 0x39, 0x64, 0x39, 0xC0, 0x1D, 0xC1, 0x37, 0x00, 0x01,
     0x80, 0x01, 0x00, 0x00, 0x00, 0x78, 0x00, 0x04, 0x0A, 0x0C, 0x01, 0x74,
     0xC1, 0x37, 0x00, 0x1C, 0x80, 0x01, 0x00, 0x00, 0x00, 0x78, 0x00, 0x10,
     0x20, 0x16, 0x0C, 0xD8, 0x45, 0x67, 0x2C, 0xD0, 0x00, 0x00, 0x00, 0x12,
     0x00, 0x00, 0x00, 0x00]"


section \<open>Discovery: sockets and the receive loop\<close>

text \<open>
  The socket layer and the C library are outside the sources; what they answer is an
  input of the model.  A \<open>round\<close> is what one pass of the receive loop observes: the
  result of \<open>WXSocket_Wait\<close> (a timeout, a negative error code, or anything else), the
  value it leaves in the \<open>int32_t timeout\<close>, and the result of \<open>WXSocket_RecvFrom\<close> (the
  datagram and its source address, or a negative length).  \<open>discoveryTimeout\<close> is the
  \<open>long\<close> of the ini settings.
\<close>

datatype family = AF_INET | AF_INET6

datatype wait_result = WXNRC_TIMEOUT | WXNRC_ERROR | WXNRC_READ_REQUIRED

datatype recv_result = RecvData "byte list" family "byte list" | RecvError

record round =
  wait_rc :: wait_result
  wait_timeout :: "32 word"
  recv :: recv_result

record family_env =
  open_ok :: bool
  ai_family :: family
  nonblock_ok :: bool
  multicast_ok :: bool
  sendto_ok :: bool
  rounds :: "nat \<Rightarrow> round"

record env =
  cptl_tstmode :: int
  discoveryTimeout :: "64 word"
  inet_pton :: "family \<Rightarrow> string \<Rightarrow> byte list"
  inet_ntop :: "family \<Rightarrow> byte list \<Rightarrow> string"
  msgBufferData :: "nat \<Rightarrow> byte"
  families :: "nat \<Rightarrow> family_env"

datatype io_event =
    OpenUDPClient string
  | SetNonBlockingState
  | SetMulticast family
  | SendTo "byte list"
  | Wait
  | RecvFrom
  | Close

text \<open>
  A call either returns a value or runs into undefined behaviour of C that the model
  does not follow (here: \<open>strcpy\<close> of an address text that reaches the pointer \<open>next\<close>).
\<close>

datatype 'a result = Returns 'a | Undefined

record discover_state =
  mem :: "nat \<Rightarrow> byte"
  retDevices :: "CastDeviceInfo list"
  trace :: "io_event list"

datatype step_result = Next "32 word" discover_state | Done discover_state | Fault

text \<open>
  From \<open>memset(&wrk, ...)\<close> to the end of the loop body: the datagram \<open>dat\<close> from
  address \<open>addr\<close> is decoded.  \<open>txtBuff\<close> is overwritten by \<open>inet_ntop\<close> before anything
  reads it, so it is not carried from one pass to the next.
\<close>

definition wrk_prepared :: wrk_memory where
  "wrk_prepared = store_port 8009 (wrk_cleared\<lparr>model_text := ''Chromecast''\<rparr>)"

definition handle_datagram ::
  "env \<Rightarrow> byte list \<Rightarrow> family \<Rightarrow> byte list \<Rightarrow> 32 word \<Rightarrow> discover_state \<Rightarrow> step_result option" where
  "handle_datagram e dat fam addr timeout st =
     (let txt = inet_ntop e fam addr
      in case strcpy_ipAddr (bytes txt) wrk_prepared of
           None \<Rightarrow> Some Fault
         | Some w \<Rightarrow>
         (let b = WXBuffer_Append (WXBuffer_Empty \<lparr>buffer = mem st, blength = 0, offset = 0\<rparr>) dat;
              st1 = st\<lparr>mem := buffer b\<rparr>
          in case decode_response \<lparr>msgBuffer = b, wrk = w, txtBuff = txt\<rparr> of
               None \<Rightarrow> None
             | Some Continue \<Rightarrow> Some (Next timeout st1)
             | Some Break \<Rightarrow> Some (Done st1)
             | Some (Device d) \<Rightarrow> Some (Next timeout (st1\<lparr>retDevices := retDevices st1 @ [d]\<rparr>))))"

definition respLen :: "recv_result \<Rightarrow> int" where
  "respLen r = (case r of RecvData dat fam addr \<Rightarrow> int (length dat) | RecvError \<Rightarrow> -1)"

text \<open>The body of \<open>while (timeout > 0)\<close>, for the pass that observes round \<open>r\<close>.\<close>

definition receive_step :: "env \<Rightarrow> nat \<Rightarrow> round \<Rightarrow> discover_state \<Rightarrow> step_result option" where
  "receive_step e modeIdx r st =
     (let st1 = st\<lparr>trace := trace st @ [Wait]\<rparr>;
          timeout = wait_timeout r
      in if wait_rc r = WXNRC_TIMEOUT \<and> cptl_tstmode e = 0 then Some (Done st1)
         else if wait_rc r = WXNRC_ERROR then Some (Done st1)
         else
         (let st2 = st1\<lparr>trace := trace st1 @ [RecvFrom]\<rparr>
          in if cptl_tstmode e \<noteq> 0
             then (if respLen (recv r) = 0 \<and> sint timeout \<le> 0
                   then (if modeIdx = 1
                         then handle_datagram e tstRespOne AF_INET
                                (inet_pton e AF_INET ''10.11.12.13'') timeout st2
                         else handle_datagram e tstRespTwo AF_INET6
                                (inet_pton e AF_INET6 ''2016:cd8:4567:2cd0::12'') timeout st2)
                   else Some (Next timeout st2))
             else (case recv r of
                     RecvError \<Rightarrow> Some (Done st2)
                   | RecvData dat fam addr \<Rightarrow>
                       if dat = [] then Some (Done st2)
                       else handle_datagram e dat fam addr timeout st2)))"

text \<open>The receive loop; \<open>k\<close> numbers the passes.  \<open>None\<close>: the loop does not end.\<close>

partial_function (option) receive_loop ::
  "env \<Rightarrow> nat \<Rightarrow> (nat \<Rightarrow> round) \<Rightarrow> nat \<Rightarrow> 32 word \<Rightarrow> discover_state \<Rightarrow> discover_state result option" where
  "receive_loop e modeIdx rs k timeout st =
     (if 0 < sint timeout
      then (case receive_step e modeIdx (rs k) st of
              None \<Rightarrow> None
            | Some Fault \<Rightarrow> Some Undefined
            | Some (Done st') \<Rightarrow> Some (Returns st')
            | Some (Next timeout' st') \<Rightarrow> receive_loop e modeIdx rs (k + 1) timeout' st')
      else Some (Returns st))"

declare receive_loop.simps [code]

text \<open>
  The query: header \<open>nnnnnn\<close>, then \<open>Ca*Ca*cA*cnn\<close> (modelled from the spec: the pack
  formats of the toolkit buffer).
\<close>

definition pack_n :: "16 word \<Rightarrow> byte list" where
  "pack_n v = [ucast (drop_bit 8 v), ucast v]"

definition mdns_query :: "byte list" where
  "mdns_query =
     pack_n 0xFEED @ pack_n 0x00 @ pack_n 0x01 @ pack_n 0x00 @ pack_n 0x00 @ pack_n 0x00 @
     [of_nat (length googlecast_label)] @ bytes googlecast_label @
     [of_nat (length tcp_label)] @ bytes tcp_label @
     [of_nat (length local_label)] @ bytes local_label @ [0x00] @
     pack_n 0x0C @ pack_n 0x8001"

text \<open>
  One pass of \<open>for (modeIdx = 1; modeIdx <= 2; modeIdx++)\<close>; \<open>ipMode\<close> and \<open>waitTm\<close> are
  the \<open>int\<close> parameters of \<open>castDiscover\<close>.
\<close>

definition discover_family ::
  "env \<Rightarrow> 32 word \<Rightarrow> 32 word \<Rightarrow> nat \<Rightarrow> discover_state \<Rightarrow> discover_state result option" where
  "discover_family e ipMode waitTm modeIdx st =
     (let f = families e modeIdx
      in if of_nat modeIdx AND ipMode = 0 then Some (Returns st)
         else
         (let targetAddr = (if modeIdx = 1 then ''224.0.0.251'' else ''ff02::fb'');
              st1 = st\<lparr>trace := trace st @ [OpenUDPClient targetAddr]\<rparr>
          in if \<not> open_ok f then Some (Returns st1)
             else
             (let st2 = st1\<lparr>trace := trace st1 @ [SetNonBlockingState]\<rparr>
              in if \<not> nonblock_ok f then Some (Returns (st2\<lparr>trace := trace st2 @ [Close]\<rparr>))
                 else
                 (let st3 = st2\<lparr>trace := trace st2 @ [SetMulticast (ai_family f)]\<rparr>
                  in if \<not> multicast_ok f then Some (Returns (st3\<lparr>trace := trace st3 @ [Close]\<rparr>))
                     else
                     (let b = WXBuffer_Append
                                (WXBuffer_Empty \<lparr>buffer = mem st3, blength = 0, offset = 0\<rparr>) mdns_query;
                          st4 = st3\<lparr>mem := buffer b, trace := trace st3 @ [SendTo mdns_query]\<rparr>
                      in if \<not> sendto_ok f then Some (Returns (st4\<lparr>trace := trace st4 @ [Close]\<rparr>))
                         else receive_loop e modeIdx (rounds f) 0 waitTm st4)))))"

text \<open>
  \<open>castDiscover\<close>.  The fallback assigns the \<open>long\<close> of the settings to the \<open>int\<close>
  \<open>waitTm\<close>, which keeps its low 32 bits.
\<close>

definition castDiscover ::
  "env \<Rightarrow> 32 word \<Rightarrow> 32 word \<Rightarrow> (CastDeviceInfo list \<times> io_event list) result option" where
  "castDiscover e ipMode waitTm0 =
     (let waitTm = (if sint waitTm0 \<le> 0 then ucast (discoveryTimeout e) else waitTm0);
          st0 = \<lparr>mem = msgBufferData e, retDevices = [], trace = []\<rparr>
      in case discover_family e ipMode waitTm 1 st0 of
           None \<Rightarrow> None
         | Some Undefined \<Rightarrow> Some Undefined
         | Some (Returns st1) \<Rightarrow>
             (case discover_family e ipMode waitTm 2 st1 of
                None \<Rightarrow> None
              | Some Undefined \<Rightarrow> Some Undefined
              | Some (Returns st2) \<Rightarrow> Some (Returns (retDevices st2, trace st2))))"


section \<open>Expected records and evaluation constants\<close>

text \<open>The records that the test of the extension expects.\<close>

definition tstDeviceOne :: CastDeviceInfo where
  "tstDeviceOne = \<lparr>id = ''63970hbc22h26b6b2a0492825db8d2f4'', name = ''Den TV'',
                    model = ''Chromecast'', ipAddr = ''10.11.12.13'', port = 8009\<rparr>"

definition tstDeviceTwo :: CastDeviceInfo where
  "tstDeviceTwo = \<lparr>id = ''6b0h3b26023d232e072a2be28a24b7b7'', name = ''TST Chrome Panel'',
                    model = ''Chromecast Ultra'', ipAddr = ''2016:cd8:4567:2cd0::12'', port = 8009\<rparr>"

text \<open>The record \<open>wrk\<close> after the address text of a canned datagram was copied into it.\<close>

definition wrk_tstOne :: wrk_memory where
  "wrk_tstOne =
     wrk_prepared\<lparr>ipAddr_port := bytes ''10.11.12.13'' @ [0] @ drop 12 (ipAddr_port wrk_prepared)\<rparr>"

definition wrk_tstTwo :: wrk_memory where
  "wrk_tstTwo =
     wrk_prepared\<lparr>ipAddr_port :=
       bytes ''2016:cd8:4567:2cd0::12'' @ [0] @ drop 23 (ipAddr_port wrk_prepared)\<rparr>"

text \<open>
  The memory of the message buffer after a canned datagram was appended, as a constant of
  its own: the evaluation below then never copies the datagram.
\<close>

definition tstRespOne_mem :: "(nat \<Rightarrow> byte) \<Rightarrow> nat \<Rightarrow> byte" where
  "tstRespOne_mem old i = (if i < 356 then tstRespOne ! i else old i)"

definition tstRespTwo_mem :: "(nat \<Rightarrow> byte) \<Rightarrow> nat \<Rightarrow> byte" where
  "tstRespTwo_mem old i = (if i < 400 then tstRespTwo ! i else old i)"


section \<open>Environments of the test mode\<close>

text \<open>
  \<open>quiet_until rs n\<close>: the passes before pass \<open>n\<close> come back with time left and without a
  wait error, and pass \<open>n\<close> comes back with the time used up and nothing read.
\<close>

definition quiet_until :: "(nat \<Rightarrow> round) \<Rightarrow> nat \<Rightarrow> bool" where
  "quiet_until rs n \<longleftrightarrow>
     (\<forall>j \<in> set [0..<n]. wait_rc (rs j) \<noteq> WXNRC_ERROR \<and> 0 < sint (wait_timeout (rs j))) \<and>
     wait_rc (rs n) \<noteq> WXNRC_ERROR \<and> respLen (recv (rs n)) = 0 \<and> sint (wait_timeout (rs n)) \<le> 0"

definition canned_device :: "nat \<Rightarrow> CastDeviceInfo" where
  "canned_device modeIdx = (if modeIdx = 1 then tstDeviceOne else tstDeviceTwo)"

definition sockets_ok :: "family_env \<Rightarrow> bool" where
  "sockets_ok f \<longleftrightarrow> open_ok f \<and> nonblock_ok f \<and> multicast_ok f \<and> sendto_ok f"

definition libc_ok :: "env \<Rightarrow> bool" where
  "libc_ok e \<longleftrightarrow>
     inet_ntop e AF_INET (inet_pton e AF_INET ''10.11.12.13'') = ''10.11.12.13'' \<and>
     inet_ntop e AF_INET6 (inet_pton e AF_INET6 ''2016:cd8:4567:2cd0::12'') = ''2016:cd8:4567:2cd0::12''"


text \<open>
  Two concrete environments: in \<open>env_test\<close> both sockets work and every wait times out at
  once; \<open>env_no_inet6\<close> is the same host without an IPv6 socket.  Their C library prints an
  address as the text it was parsed from.
\<close>

definition quiet_round :: round where
  "quiet_round = \<lparr>wait_rc = WXNRC_TIMEOUT, wait_timeout = 0, recv = RecvData [] AF_INET []\<rparr>"

definition family_ok :: "family \<Rightarrow> family_env" where
  "family_ok fam = \<lparr>open_ok = True, ai_family = fam, nonblock_ok = True, multicast_ok = True,
                    sendto_ok = True, rounds = (\<lambda>k. quiet_round)\<rparr>"

definition env_test :: env where
  "env_test = \<lparr>cptl_tstmode = 1, discoveryTimeout = 5000,
               inet_pton = (\<lambda>fam s. bytes s), inet_ntop = (\<lambda>fam a. chars a),
               msgBufferData = (\<lambda>i. 0),
               families = (\<lambda>modeIdx. if modeIdx = 1 then family_ok AF_INET else family_ok AF_INET6)\<rparr>"

definition env_no_inet6 :: env where
  "env_no_inet6 = env_test\<lparr>families :=
      (\<lambda>modeIdx. if modeIdx = 1 then family_ok AF_INET else (family_ok AF_INET6)\<lparr>open_ok := False\<rparr>)\<rparr>"


section \<open>A name that points back into itself\<close>

text \<open>
  A datagram with a valid header whose answer name is the label \<open>a\<close> followed by a
  pointer to offset 12, the start of that same name, and then the rest of the record.
\<close>

definition cyclicName :: "byte list" where
  "cyclicName = [0xFE, 0xED, 0x84, 0x00, 0x00, 0x00, 0x00, 0x01, 0x00, 0x00, 0x00, 0x00,
                 0x01, 0x61, 0xC0, 0x0C,
                 0x00, 0x0C, 0x00, 0x01, 0x00, 0x00, 0x00, 0x78, 0x00, 0x00]"

definition cyclicName_mem :: "(nat \<Rightarrow> byte) \<Rightarrow> nat \<Rightarrow> byte" where
  "cyclicName_mem old i = (if i < 26 then cyclicName ! i else old i)"

definition in_cycle :: "qname_state \<Rightarrow> bool" where
  "in_cycle s \<longleftrightarrow> ptr s = 14 \<and> qoffset s = 16 \<and> limit s = 26 \<and> redirect s"


section \<open>Names as the wire format defines them\<close>













section \<open>An address text that fills the address field\<close>

text \<open>
  The text of an IPv6 address with eight full groups has 38 characters and more;
  \<open>wrk_long_source\<close> is \<open>wrk\<close> after such a text was copied to \<open>ipAddr\<close>: its characters
  32 and 33 lie in \<open>port\<close>.
\<close>

definition long_source_text :: string where
  "long_source_text = ''2016:cd8:4567:2cd0:1234:5678:9abc:def0''"

definition wrk_long_source :: wrk_memory where
  "wrk_long_source = wrk_prepared\<lparr>ipAddr_port := bytes long_source_text @ [0, 0]\<rparr>"

definition discover_state0 :: discover_state where
  "discover_state0 = \<lparr>mem = (\<lambda>i. 0), retDevices = [], trace = []\<rparr>"


section \<open>Cast messages: the frame decoder\<close>

text \<open>
  Modelled from the spec: the format \<open>y\<close> of \<open>WXBuffer_Unpack\<close>, a protocol-buffer
  varint of one to five bytes for a 32-bit value (buffer.c is not among the sources).
  \<open>varint_bytes\<close> collects, from offset \<open>off\<close>, at most \<open>n\<close> bytes up to the first one
  without the continuation bit; \<open>None\<close> when the input ends first or no such byte is among
  them.
\<close>

fun varint_bytes :: "(nat \<Rightarrow> byte) \<Rightarrow> nat \<Rightarrow> nat \<Rightarrow> nat \<Rightarrow> byte list option" where
  "varint_bytes m len off 0 = None"
| "varint_bytes m len off (Suc n) =
     (if off < len
      then (if m off AND 0x80 = 0 then Some [m off]
            else map_option (\<lambda>bs. m off # bs) (varint_bytes m len (off + 1) n))
      else None)"

fun varint_value :: "byte list \<Rightarrow> 32 word" where
  "varint_value [] = 0"
| "varint_value (b # bs) = ucast (b AND 0x7F) OR push_bit 7 (varint_value bs)"

definition unpack_y :: "WXBuffer \<Rightarrow> (32 word \<times> WXBuffer) option" where
  "unpack_y b =
     (case varint_bytes (buffer b) (blength b) (offset b) 5 of
        None \<Rightarrow> None
      | Some bs \<Rightarrow> Some (varint_value bs, b\<lparr>offset := offset b + length bs\<rparr>))"

text \<open>
  The callers preset their variable to \<open>(uint32_t) -1\<close> and ignore the result of the
  unpack: a failed unpack leaves the sentinel in place (and every caller then leaves the
  frame, so the cursor of a failed unpack is never looked at).
\<close>

definition unpack_y_or_sentinel :: "WXBuffer \<Rightarrow> 32 word \<times> WXBuffer" where
  "unpack_y_or_sentinel b = (case unpack_y b of None \<Rightarrow> (0xFFFFFFFF, b) | Some r \<Rightarrow> r)"

datatype CastNamespace =
  NS_ANY | NS_CONNECTION | NS_DEVICE_AUTH | NS_HEARTBEAT | NS_RECEIVER | NS_UNKNOWN

definition namespaces :: "(CastNamespace \<times> string) list" where
  "namespaces =
     [(NS_CONNECTION, ''urn:x-cast:com.google.cast.tp.connection''),
      (NS_DEVICE_AUTH, ''urn:x-cast:com.google.cast.tp.deviceauth''),
      (NS_HEARTBEAT, ''urn:x-cast:com.google.cast.tp.heartbeat''),
      (NS_RECEIVER, ''urn:x-cast:com.google.cast.receiver'')]"

text \<open>The \<open>for\<close> loop over the namespace table: the first entry that matches wins.\<close>

fun find_namespace :: "(CastNamespace \<times> string) list \<Rightarrow> (nat \<Rightarrow> byte) \<Rightarrow> nat \<Rightarrow> 32 word
    \<Rightarrow> CastNamespace \<Rightarrow> CastNamespace" where
  "find_namespace [] m off fragLen ns = ns"
| "find_namespace ((idx, str) # rest) m off fragLen ns =
     (if unat fragLen = length str \<and> memread m off (unat fragLen) = bytes str then idx
      else find_namespace rest m off fragLen ns)"

text \<open>
  A pointer into the memory of the rolling buffer, as an offset from its base; \<open>PtrWild\<close>
  is a pointer that is neither \<open>NULL\<close> nor inside that memory.
\<close>

datatype pointer = PtrNull | PtrWild | PtrAt nat

text \<open>
  The local variables of \<open>parseInboundMessages\<close> together with the rolling buffer of the
  connection.  \<open>fragLen\<close>, \<open>fragVarInt\<close>, \<open>content\<close> and \<open>contentLen\<close> are not
  initialised in the source and keep their values from one fragment and one frame to the
  next; what they hold on entry is an input of the model.  \<open>warnings\<close> collects the calls
  of \<open>php_error_docref\<close>.
\<close>

record parse_state =
  rdBuffer :: WXBuffer
  msgLen :: "32 word"
  fragLen :: "32 word"
  fragVarInt :: "32 word"
  msgProtoVersion :: "32 word"
  namespace :: CastNamespace
  contentType :: "32 word"
  isSenderSession :: int
  isPortalReceiver :: int
  content :: pointer
  contentLen :: "32 word"
  warnings :: "string list"

definition set_offset :: "nat \<Rightarrow> parse_state \<Rightarrow> parse_state" where
  "set_offset off s = s\<lparr>rdBuffer := (rdBuffer s)\<lparr>offset := off\<rparr>\<rparr>"

definition warn :: "string \<Rightarrow> parse_state \<Rightarrow> parse_state" where
  "warn w s = s\<lparr>warnings := warnings s @ [w]\<rparr>"

text \<open>
  The first \<open>switch\<close>: the value of the fragment by its wire type.  \<open>Inl s\<close> is
  \<open>goto msg_error\<close> in the state \<open>s\<close>.  The wire types 6 and 7 have no case: \<open>fragLen\<close>
  keeps its old value.
\<close>

definition wire_value :: "nat \<Rightarrow> 32 word \<Rightarrow> parse_state \<Rightarrow> parse_state + parse_state" where
  "wire_value msgLimit fragType s =
     (if fragType = 0 then
        (case unpack_y_or_sentinel (rdBuffer s) of (v, b) \<Rightarrow>
           (let s1 = s\<lparr>fragLen := 0, fragVarInt := v, rdBuffer := b\<rparr>
            in if v = 0xFFFFFFFF \<or> offset b \<ge> msgLimit then Inl s1 else Inr s1))
      else if fragType = 1 then Inr (s\<lparr>fragLen := 8\<rparr>)
      else if fragType = 2 then
        (case unpack_y_or_sentinel (rdBuffer s) of (v, b) \<Rightarrow>
           (let s1 = s\<lparr>fragLen := v, rdBuffer := b\<rparr>
            in if v = 0xFFFFFFFF \<or> offset b \<ge> msgLimit then Inl s1 else Inr s1))
      else if fragType = 3 \<or> fragType = 4 then Inl s
      else if fragType = 5 then Inr (s\<lparr>fragLen := 4\<rparr>)
      else Inr s)"

text \<open>
  The second \<open>switch\<close>: the field by its index.  In the cases 2 and 3 the second test is
  the assignment \<open>fragLen = 999\<close>, which stores 999 and is true: the third branch with its
  warning is never taken.
\<close>

definition field_value :: "32 word \<Rightarrow> 32 word \<Rightarrow> parse_state \<Rightarrow> parse_state + parse_state" where
  "field_value fragIdx fragType s =
     (let m = buffer (rdBuffer s); off = offset (rdBuffer s)
      in if fragIdx = 1 then
           (if fragType \<noteq> 0 then Inl s else Inr (s\<lparr>msgProtoVersion := fragVarInt s\<rparr>))
         else if fragIdx = 2 then
           (if fragLen s = 10 \<and> memread m off 10 = bytes ''receiver-0''
            then Inr (s\<lparr>isPortalReceiver := 0\<rparr>)
            else Inr (s\<lparr>fragLen := 999, isPortalReceiver := 1\<rparr>))
         else if fragIdx = 3 then
           (if fragLen s = 8 \<and> memread m off 8 = bytes ''sender-0''
            then Inr (s\<lparr>isSenderSession := 0\<rparr>)
            else Inr (s\<lparr>fragLen := 999, isSenderSession := 1\<rparr>))
         else if fragIdx = 4 then
           Inr (s\<lparr>namespace := find_namespace namespaces m off (fragLen s) (namespace s)\<rparr>)
         else if fragIdx = 5 then
           (if fragType \<noteq> 0 then Inl s
            else if fragVarInt s \<noteq> 0 \<and> fragVarInt s \<noteq> 1 then Inl s
            else Inr (s\<lparr>contentType := fragVarInt s\<rparr>))
         else if fragIdx = 6 \<or> fragIdx = 7 then
           Inr (s\<lparr>content := PtrAt off, contentLen := fragLen s\<rparr>)
         else Inl (warn ''Invalid protocol fragment index'' s))"

text \<open>One pass of \<open>while (rdBuffer->offset < msgLimit)\<close>.\<close>

definition read_fragment :: "nat \<Rightarrow> parse_state \<Rightarrow> parse_state + parse_state" where
  "read_fragment msgLimit s =
     (case unpack_y_or_sentinel (rdBuffer s) of (tag, b) \<Rightarrow>
        if tag = 0xFFFFFFFF \<or> offset b \<ge> msgLimit then Inl (s\<lparr>rdBuffer := b\<rparr>)
        else (case wire_value msgLimit (tag AND 0x07) (s\<lparr>rdBuffer := b\<rparr>) of
                Inl e \<Rightarrow> Inl e
              | Inr s1 \<Rightarrow>
                  (case field_value (drop_bit 3 tag) (tag AND 0x07) s1 of
                     Inl e \<Rightarrow> Inl e
                   | Inr s2 \<Rightarrow> Inr (set_offset (offset (rdBuffer s2) + unat (fragLen s2)) s2))))"

lemma varint_bytes_nonempty: "varint_bytes m len off n = Some bs \<Longrightarrow> bs \<noteq> []"
  by (cases n) (auto split: if_splits)

lemma unpack_y_or_sentinel_offset:
  "unpack_y_or_sentinel b = (v, b') \<Longrightarrow> v \<noteq> 0xFFFFFFFF \<Longrightarrow> offset b < offset b'"
  by (auto simp: unpack_y_or_sentinel_def unpack_y_def split: option.splits
           dest!: varint_bytes_nonempty)

lemma unpack_y_or_sentinel_blength:
  "unpack_y_or_sentinel b = (v, b') \<Longrightarrow> blength b' = blength b"
  by (auto simp: unpack_y_or_sentinel_def unpack_y_def split: option.splits)

lemma wire_value_offset:
  "wire_value msgLimit fragType s = Inr s' \<Longrightarrow> offset (rdBuffer s) \<le> offset (rdBuffer s')"
  by (auto simp: wire_value_def Let_def split: if_splits prod.splits
           dest!: unpack_y_or_sentinel_offset)

lemma field_value_rdBuffer:
  "field_value fragIdx fragType s = Inr s' \<Longrightarrow> rdBuffer s' = rdBuffer s"
  by (auto simp: field_value_def Let_def split: if_splits)

lemma read_fragment_offset:
  assumes "read_fragment msgLimit s = Inr s'"
  shows "offset (rdBuffer s) < offset (rdBuffer s')"
proof -
  obtain tag b where u: "unpack_y_or_sentinel (rdBuffer s) = (tag, b)"
    by (cases "unpack_y_or_sentinel (rdBuffer s)")
  with assms have t: "tag \<noteq> 0xFFFFFFFF"
    by (auto simp: read_fragment_def split: if_splits)
  from assms u t obtain s1 s2 where
    w: "wire_value msgLimit (tag AND 0x07) (s\<lparr>rdBuffer := b\<rparr>) = Inr s1" and
    f: "field_value (drop_bit 3 tag) (tag AND 0x07) s1 = Inr s2" and
    r: "s' = set_offset (offset (rdBuffer s2) + unat (fragLen s2)) s2"
    by (auto simp: read_fragment_def split: if_splits sum.splits)
  from unpack_y_or_sentinel_offset [OF u t] wire_value_offset [OF w] field_value_rdBuffer [OF f] r
  show ?thesis by (simp add: set_offset_def)
qed

text \<open>The fragment loop of one frame.\<close>

function parse_fragments :: "nat \<Rightarrow> parse_state \<Rightarrow> parse_state + parse_state" where
  "parse_fragments msgLimit s =
     (if offset (rdBuffer s) < msgLimit
      then (case read_fragment msgLimit s of
              Inl e \<Rightarrow> Inl e
            | Inr s' \<Rightarrow> parse_fragments msgLimit s')
      else Inr s)"
  by pat_completeness auto
termination parse_fragments
  by (relation "measure (\<lambda>(msgLimit, s). msgLimit - offset (rdBuffer s))")
     (auto dest: read_fragment_offset)

declare parse_fragments.simps [simp del]

text \<open>
  A frame from the reset of the per-frame variables to the test that everything required
  is there.  \<open>content\<close> is not among the variables that are reset.
\<close>

definition decode_frame :: "nat \<Rightarrow> parse_state \<Rightarrow> parse_state + parse_state" where
  "decode_frame msgLimit s =
     (case parse_fragments msgLimit
             (s\<lparr>msgProtoVersion := -1, namespace := NS_UNKNOWN, contentType := -1,
                isSenderSession := -1, isPortalReceiver := -1\<rparr>) of
        Inl e \<Rightarrow> Inl e
      | Inr s1 \<Rightarrow>
          if offset (rdBuffer s1) \<noteq> msgLimit then Inl s1
          else if msgProtoVersion s1 \<noteq> 0 \<or> namespace s1 = NS_UNKNOWN \<or>
                  isSenderSession s1 < 0 \<or> isPortalReceiver s1 < 0 \<or>
                  contentType s1 = -1 \<or> content s1 = PtrNull
          then Inl (warn ''Missing /invalid elements in the msg response'' s1)
          else Inr s1)"

text \<open>
  The filter of the receive call: the four arguments against the decoded frame, one
  \<open>if\<close> of the source after the other.
\<close>

definition frame_matched :: "int \<Rightarrow> int \<Rightarrow> CastNamespace \<Rightarrow> int \<Rightarrow> parse_state \<Rightarrow> bool" where
  "frame_matched forSenderSession fromPortalReceiver targNamespace expJsonResponse s =
     (let matched = True;
          matched = (if forSenderSession \<ge> 0 \<and> forSenderSession \<noteq> 0 \<and> isSenderSession s \<noteq> 0
                     then False else matched);
          matched = (if forSenderSession \<ge> 0 \<and> forSenderSession = 0 \<and> isSenderSession s \<noteq> 0
                     then False else matched);
          matched = (if fromPortalReceiver \<ge> 0 \<and> fromPortalReceiver \<noteq> 0 \<and> isPortalReceiver s = 0
                     then False else matched);
          matched = (if fromPortalReceiver \<ge> 0 \<and> fromPortalReceiver = 0 \<and> isPortalReceiver s \<noteq> 0
                     then False else matched);
          matched = (if targNamespace \<noteq> NS_ANY \<and> namespace s \<noteq> targNamespace
                     then False else matched);
          matched = (if expJsonResponse \<ge> 0 \<and> contentType s = 0 \<and> expJsonResponse = 0
                     then False else matched);
          matched = (if expJsonResponse \<ge> 0 \<and> contentType s \<noteq> 0 \<and> expJsonResponse \<noteq> 0
                     then False else matched)
      in matched)"

definition consumeBuffer :: "WXBuffer \<Rightarrow> 32 word \<Rightarrow> WXBuffer" where
  "consumeBuffer b len =
     \<lparr>buffer = (\<lambda>i. if i < blength b - unat len then buffer b (i + unat len) else buffer b i),
      blength = blength b - unat len, offset = 0\<rparr>"

text \<open>The label \<open>msg_error\<close>.\<close>

definition msg_error :: "parse_state \<Rightarrow> parse_state" where
  "msg_error s =
     (let s1 = warn ''Invalid/unparsable content in response message buffer'' s
      in if msgLen s1 \<noteq> 0 then s1\<lparr>rdBuffer := consumeBuffer (rdBuffer s1) (msgLen s1 + 4)\<rparr>
         else s1)"


section \<open>Cast messages: payloads, callbacks and the frame loop\<close>

text \<open>
  The JSON decoder of the toolkit is outside the sources and is an input of the model:
  it maps the text of a payload to \<open>None\<close> for its \<open>NULL\<close> (no memory) and to a value
  otherwise, \<open>JError\<close> being a value of type \<open>WXJSONVALUE_ERROR\<close>.  A callback receives
  the decoded value or the binary payload and returns \<open>NULL\<close>, \<open>CPTL_RESP_ERROR\<close> or
  another pointer, together with the warnings it logs; \<open>Undefined\<close> is a callback whose
  behaviour the language leaves open (the callbacks of the sources read every JSON value
  as an object).
\<close>

datatype json =
    JError
  | JNull
  | JBool bool
  | JNumber int
  | JString string
  | JArray "json list"
  | JObject "(string \<times> json) list"

datatype payload = JsonContent json | BinaryContent "byte list"

datatype 'r response = RespNull | CPTL_RESP_ERROR | RespValue 'r

datatype 'r frame_result = Finished "'r response" parse_state | NextFrame parse_state | Fault

text \<open>
  \<open>WXBuffer_Unpack(rdBuffer, "N", &msgLen)\<close> from offset 0, its result ignored as in the
  source.
\<close>

definition read_length :: "parse_state \<Rightarrow> parse_state" where
  "read_length s =
     (let b = (rdBuffer s)\<lparr>offset := 0\<rparr>
      in case unpack_N b of
           None \<Rightarrow> s\<lparr>rdBuffer := b\<rparr>
         | Some (len, b') \<Rightarrow> s\<lparr>msgLen := len, rdBuffer := b'\<rparr>)"

definition consume_frame :: "parse_state \<Rightarrow> parse_state" where
  "consume_frame s = s\<lparr>rdBuffer := consumeBuffer (rdBuffer s) (msgLen s + 4)\<rparr>"

text \<open>The end of a pass: the frame is consumed and the loop goes on while \<open>retval\<close> is \<open>NULL\<close>.\<close>

definition after_callback :: "'r response \<Rightarrow> parse_state \<Rightarrow> 'r frame_result" where
  "after_callback retval s =
     (case retval of
        RespNull \<Rightarrow> NextFrame (consume_frame s)
      | _ \<Rightarrow> Finished retval (consume_frame s))"

text \<open>
  The branch of a matched frame.  A string payload is moved down by one byte and
  terminated inside the buffer, then decoded.  \<open>contentLen\<close> is an \<open>int32_t\<close> that is
  passed where a \<open>size_t\<close> is expected: a negative one is a length no buffer has.
\<close>

definition deliver ::
  "(byte list \<Rightarrow> json option) \<Rightarrow> (payload \<Rightarrow> ('r response \<times> string list) result)
     \<Rightarrow> parse_state \<Rightarrow> 'r frame_result" where
  "deliver json_decode responseCallback s =
     (case content s of
        PtrAt c \<Rightarrow>
          (let n = unat (contentLen s); m = buffer (rdBuffer s)
           in if sint (contentLen s) < 0 \<or> c = 0 then Fault
              else if contentType s = 0 then
                (let dat = memread m c n;
                     m' = (\<lambda>i. if c - 1 \<le> i \<and> i < c - 1 + n then dat ! (i - (c - 1))
                                else if i = c - 1 + n then 0 else m i);
                     s1 = s\<lparr>rdBuffer := (rdBuffer s)\<lparr>buffer := m'\<rparr>, content := PtrAt (c - 1)\<rparr>
                 in case json_decode (cstr dat) of
                      None \<Rightarrow>
                        Finished CPTL_RESP_ERROR
                          (msg_error (warn ''Allocation failure in JSON parsing'' s1))
                    | Some JError \<Rightarrow> after_callback RespNull (warn ''Invalid JSON response'' s1)
                    | Some jsonVal \<Rightarrow>
                        (case responseCallback (JsonContent jsonVal) of
                           Undefined \<Rightarrow> Fault
                         | Returns (retval, ws) \<Rightarrow>
                             after_callback retval (s1\<lparr>warnings := warnings s1 @ ws\<rparr>)))
              else
                (case responseCallback (BinaryContent (memread m c n)) of
                   Undefined \<Rightarrow> Fault
                 | Returns (retval, ws) \<Rightarrow>
                     after_callback retval (s\<lparr>warnings := warnings s @ ws\<rparr>)))
      | _ \<Rightarrow> Fault)"

text \<open>One pass of the frame loop, entered with at least four bytes in the buffer.\<close>

definition process_frame ::
  "int \<Rightarrow> int \<Rightarrow> CastNamespace \<Rightarrow> (payload \<Rightarrow> ('r response \<times> string list) result) \<Rightarrow> int
     \<Rightarrow> (byte list \<Rightarrow> json option) \<Rightarrow> parse_state \<Rightarrow> 'r frame_result" where
  "process_frame forSenderSession fromPortalReceiver targNamespace responseCallback
       expJsonResponse json_decode s =
     (let s1 = read_length s; msgLimit = unat (msgLen s1 + 4)
      in if blength (rdBuffer s1) < msgLimit then Finished RespNull s1
         else (case decode_frame msgLimit s1 of
                 Inl e \<Rightarrow> Finished CPTL_RESP_ERROR (msg_error e)
               | Inr s2 \<Rightarrow>
                   if frame_matched forSenderSession fromPortalReceiver targNamespace
                        expJsonResponse s2
                   then deliver json_decode responseCallback s2
                   else NextFrame (consume_frame s2)))"

lemma wire_value_blength:
  "wire_value msgLimit fragType s = Inr s' \<Longrightarrow>
     blength (rdBuffer s') = blength (rdBuffer s) \<and> msgLen s' = msgLen s"
  by (auto simp: wire_value_def Let_def split: if_splits prod.splits
           dest!: unpack_y_or_sentinel_blength)

lemma field_value_msgLen: "field_value fragIdx fragType s = Inr s' \<Longrightarrow> msgLen s' = msgLen s"
  by (auto simp: field_value_def Let_def split: if_splits)

lemma read_fragment_blength:
  assumes "read_fragment msgLimit s = Inr s'"
  shows "blength (rdBuffer s') = blength (rdBuffer s) \<and> msgLen s' = msgLen s"
proof -
  obtain tag b where u: "unpack_y_or_sentinel (rdBuffer s) = (tag, b)"
    by (cases "unpack_y_or_sentinel (rdBuffer s)")
  from assms u obtain s1 s2 where
    w: "wire_value msgLimit (tag AND 0x07) (s\<lparr>rdBuffer := b\<rparr>) = Inr s1" and
    f: "field_value (drop_bit 3 tag) (tag AND 0x07) s1 = Inr s2" and
    r: "s' = set_offset (offset (rdBuffer s2) + unat (fragLen s2)) s2"
    by (auto simp: read_fragment_def split: if_splits sum.splits)
  from unpack_y_or_sentinel_blength [OF u] wire_value_blength [OF w]
       field_value_rdBuffer [OF f] field_value_msgLen [OF f] r
  show ?thesis by (simp add: set_offset_def)
qed

lemma parse_fragments_inv:
  "parse_fragments msgLimit s = Inr s' \<Longrightarrow>
     blength (rdBuffer s') = blength (rdBuffer s) \<and> msgLen s' = msgLen s \<and>
     offset (rdBuffer s) \<le> offset (rdBuffer s')"
proof (induction msgLimit s rule: parse_fragments.induct)
  case (1 msgLimit s)
  show ?case
  proof (cases "offset (rdBuffer s) < msgLimit")
    case False
    with "1.prems" show ?thesis by (simp add: parse_fragments.simps)
  next
    case True
    with "1.prems" obtain s1 where
      r: "read_fragment msgLimit s = Inr s1" and p: "parse_fragments msgLimit s1 = Inr s'"
      by (subst (asm) parse_fragments.simps) (auto split: sum.splits)
    from "1.IH" [OF True r p] read_fragment_blength [OF r] read_fragment_offset [OF r]
    show ?thesis by simp
  qed
qed

lemma decode_frame_inv:
  assumes "decode_frame msgLimit s = Inr s'"
  shows "blength (rdBuffer s') = blength (rdBuffer s) \<and> msgLen s' = msgLen s \<and>
         offset (rdBuffer s) \<le> msgLimit \<and> offset (rdBuffer s') = msgLimit"
  using assms parse_fragments_inv
    [of msgLimit "s\<lparr>msgProtoVersion := -1, namespace := NS_UNKNOWN, contentType := -1,
                     isSenderSession := -1, isPortalReceiver := -1\<rparr>" s']
  by (auto simp: decode_frame_def split: sum.splits if_splits)

lemma read_length_inv:
  "4 \<le> blength (rdBuffer s) \<Longrightarrow>
     blength (rdBuffer (read_length s)) = blength (rdBuffer s) \<and>
     offset (rdBuffer (read_length s)) = 4"
  by (simp add: read_length_def unpack_N_def Let_def)

lemma consume_frame_blength:
  "blength (rdBuffer (consume_frame s)) = blength (rdBuffer s) - unat (msgLen s + 4)"
  by (simp add: consume_frame_def consumeBuffer_def)

lemma after_callback_NextFrame:
  "after_callback retval s = NextFrame s' \<Longrightarrow> s' = consume_frame s"
  by (cases retval) (auto simp: after_callback_def)

lemma deliver_NextFrame:
  "deliver json_decode responseCallback s = NextFrame s' \<Longrightarrow>
     blength (rdBuffer s') = blength (rdBuffer s) - unat (msgLen s + 4)"
  by (auto simp: deliver_def Let_def warn_def consume_frame_blength
           split: pointer.splits if_splits option.splits json.splits result.splits prod.splits
           dest!: after_callback_NextFrame)

lemma process_frame_NextFrame:
  assumes "4 \<le> blength (rdBuffer s)"
    and "process_frame fs fp ns cb ej dec s = NextFrame s'"
  shows "blength (rdBuffer s') < blength (rdBuffer s)"
proof -
  let ?s1 = "read_length s"
  let ?lim = "unat (msgLen ?s1 + 4)"
  from assms(2) obtain s2 where
    d: "decode_frame ?lim ?s1 = Inr s2" and
    n: "blength (rdBuffer s') = blength (rdBuffer s2) - unat (msgLen s2 + 4)"
    by (auto simp: process_frame_def Let_def consume_frame_blength
             split: if_splits sum.splits dest: deliver_NextFrame)
  from decode_frame_inv [OF d] read_length_inv [OF assms(1)] n assms(1)
  show ?thesis by simp
qed

text \<open>The loop \<open>while ((rdBuffer->length >= 4) && (retval == NULL))\<close>.\<close>

function frames_loop ::
  "int \<Rightarrow> int \<Rightarrow> CastNamespace \<Rightarrow> (payload \<Rightarrow> ('r response \<times> string list) result) \<Rightarrow> int
     \<Rightarrow> (byte list \<Rightarrow> json option) \<Rightarrow> parse_state \<Rightarrow> ('r response \<times> parse_state) result" where
  "frames_loop fs fp ns cb ej dec s =
     (if 4 \<le> blength (rdBuffer s)
      then (case process_frame fs fp ns cb ej dec s of
              NextFrame s' \<Rightarrow> frames_loop fs fp ns cb ej dec s'
            | Finished retval s' \<Rightarrow> Returns (retval, s')
            | Fault \<Rightarrow> Undefined)
      else Returns (RespNull, s))"
  by pat_completeness auto
termination frames_loop
  by (relation "measure (\<lambda>(fs, fp, ns, cb, ej, dec, s). blength (rdBuffer s))")
     (auto dest: process_frame_NextFrame)

declare frames_loop.simps [simp del]

text \<open>
  \<open>parseInboundMessages\<close> on the rolling buffer \<open>readBuffer\<close>: \<open>msgLen\<close> starts at 0 and
  \<open>retval\<close> at \<open>NULL\<close>; \<open>uninit\<close> gives what the other variables hold on entry.
\<close>

definition parseInboundMessages ::
  "parse_state \<Rightarrow> WXBuffer \<Rightarrow> int \<Rightarrow> int \<Rightarrow> CastNamespace \<Rightarrow> (payload \<Rightarrow> ('r response \<times> string list) result) \<Rightarrow> int
     \<Rightarrow> (byte list \<Rightarrow> json option) \<Rightarrow> ('r response \<times> parse_state) result" where
  "parseInboundMessages uninit readBuffer forSenderSession fromPortalReceiver targNamespace
       responseCallback expJsonResponse json_decode =
     frames_loop forSenderSession fromPortalReceiver targNamespace responseCallback
       expJsonResponse json_decode (uninit\<lparr>rdBuffer := readBuffer, msgLen := 0, warnings := []\<rparr>)"


section \<open>Cast messages: the connection\<close>

text \<open>
  \<open>CastDeviceConnection\<close>: \<open>ssl\<close> tells whether the pointer of that name is set; the
  socket handle and the SSL context play no part in what follows.
\<close>

record CastDeviceConnection =
  ssl :: bool
  isConnected :: bool
  readBuffer :: WXBuffer
  requestId :: "32 word"

text \<open>
  What reaches the outside: the warnings of \<open>php_error_docref\<close> and the messages handed
  to \<open>SSL_write\<close>, given by the parts they are packed from.
\<close>

datatype message_data = StringData string | BinaryData "byte list"

datatype io = Warning string | Write string string string message_data

text \<open>
  The connection with the position in the stream of what \<open>SSL_read\<close> delivers and the
  log of what reached the outside.
\<close>

record channel =
  conn :: CastDeviceConnection
  pos :: nat
  log :: "io list"

text \<open>
  One call of \<open>SSL_read\<close>: bytes (at least one, \<open>rc > 0\<close>), or \<open>SSL_ERROR_WANT_READ\<close>
  with the result of the \<open>WXSocket_Wait\<close> that follows and the time it leaves in the
  \<open>int32_t reqTimeout\<close>, or any other error.
\<close>

datatype ssl_read = ReadData byte "byte list" | WantRead wait_result "32 word" | SslFailure

text \<open>
  The process-wide settings and everything the libraries decide: the test mode, the ini
  values, whether \<open>WXBuffer_Pack\<close>, \<open>WXBuffer_Append\<close> and \<open>SSL_write\<close> succeed, the JSON
  decoder, the inbound stream, and the values of the uninitialised variables of the
  parser.
\<close>

record msg_env =
  tstmode :: int
  messageTimeout :: "64 word"
  applicationId :: string
  pack_header_ok :: bool
  pack_payload_ok :: bool
  pack_prefix_ok :: bool
  append_ok :: bool
  ssl_write_ok :: bool
  json_decode :: "byte list \<Rightarrow> json option"
  reads :: "nat \<Rightarrow> ssl_read"
  uninit :: parse_state

definition logs :: "io list \<Rightarrow> channel \<Rightarrow> channel" where
  "logs evs st = st\<lparr>log := log st @ evs\<rparr>"

text \<open>
  \<open>castSendMessage\<close>.  The namespace indexes the table of names: \<open>NS_ANY\<close> and
  \<open>NS_UNKNOWN\<close> are outside it.
\<close>

definition castSendMessage ::
  "msg_env \<Rightarrow> channel \<Rightarrow> int \<Rightarrow> int \<Rightarrow> CastNamespace \<Rightarrow> message_data \<Rightarrow> (int \<times> channel) result" where
  "castSendMessage e st fromSenderSession toPortalReceiver ns dat =
     (case map_of namespaces ns of
        None \<Rightarrow> Undefined
      | Some nsStr \<Rightarrow>
          (let senderId = (if fromSenderSession \<noteq> 0 then ''castptl-nnn'' else ''sender-0'');
               receiverId = (if toPortalReceiver \<noteq> 0 then ''castptl-000'' else ''receiver-0'')
           in if \<not> pack_header_ok e
              then Returns (-1, logs [Warning ''Message header packaging failure''] st)
              else if \<not> pack_payload_ok e
              then Returns (-1, logs [Warning (case dat of
                        StringData d \<Rightarrow> ''Message payload (string) packaging failure''
                      | BinaryData d \<Rightarrow> ''Message payload (binary) packaging failure'')] st)
              else if \<not> pack_prefix_ok e
              then Returns (-1, logs [Warning ''Message header prefix allocation failure''] st)
              else if tstmode e \<noteq> 0 \<and> \<not> ssl (conn st) then Returns (0, st)
              else if \<not> ssl_write_ok e
              then Returns (-1, logs [Warning ''Failed to write outbound message''] st)
              else Returns (0, logs [Write senderId receiverId nsStr dat] st)))"

text \<open>
  One pass of the loop of \<open>castReceiveMessage\<close>, and the loop.  In test mode on a
  connection without SSL the canned response \<open>tstresp\<close> is what every pass reads, and no
  pass lowers \<open>reqTimeout\<close>: \<open>None\<close> is a call that does not return.  A canned response of
  length 0 would hand a null pointer to \<open>SSL_get_error\<close>.
\<close>

datatype 'r pass = Return "'r response" channel | Again "32 word" channel | Crash

definition flush :: "string \<Rightarrow> channel \<Rightarrow> channel" where
  "flush w st =
     logs [Warning w] (st\<lparr>conn := (conn st)\<lparr>readBuffer := WXBuffer_Empty (readBuffer (conn st))\<rparr>\<rparr>)"

definition receive_pass ::
  "msg_env \<Rightarrow> int \<Rightarrow> int \<Rightarrow> CastNamespace \<Rightarrow> (payload \<Rightarrow> ('r response \<times> string list) result)
     \<Rightarrow> int \<Rightarrow> byte list \<Rightarrow> 32 word \<Rightarrow> channel \<Rightarrow> 'r pass" where
  "receive_pass e forSenderSession fromPortalReceiver ns responseCallback expJsonResponse
       tstresp reqTimeout st =
     (let tst = (tstmode e \<noteq> 0 \<and> \<not> ssl (conn st));
          st1 = (if tst then st else st\<lparr>pos := pos st + 1\<rparr>);
          parse = (\<lambda>dat.
            if \<not> append_ok e then Return RespNull (flush ''Error assembling read response'' st1)
            else (case parseInboundMessages (uninit e) (WXBuffer_Append (readBuffer (conn st1)) dat)
                         forSenderSession fromPortalReceiver ns responseCallback expJsonResponse
                         (json_decode e) of
                    Undefined \<Rightarrow> Crash
                  | Returns (retval, ps) \<Rightarrow>
                      (let st2 = logs (map Warning (warnings ps))
                                   (st1\<lparr>conn := (conn st1)\<lparr>readBuffer := rdBuffer ps\<rparr>\<rparr>)
                       in case retval of
                            RespNull \<Rightarrow> Again reqTimeout st2
                          | CPTL_RESP_ERROR \<Rightarrow> Return RespNull st2
                          | RespValue v \<Rightarrow> Return (RespValue v) st2)))
      in if tst then (if tstresp = [] then Crash else parse tstresp)
         else (case reads e (pos st) of
                 ReadData b bs \<Rightarrow> parse (b # bs)
               | WantRead wrc left \<Rightarrow>
                   (if wrc = WXNRC_READ_REQUIRED then Again left st1
                    else if wrc = WXNRC_TIMEOUT
                    then Return RespNull (flush ''Timeout on wait for socket response'' st1)
                    else Return RespNull (flush ''Error in socket READ_WAIT'' st1))
               | SslFailure \<Rightarrow> Return RespNull (flush ''Failed to read inbound content'' st1)))"

partial_function (option) receive_loop_msg ::
  "msg_env \<Rightarrow> int \<Rightarrow> int \<Rightarrow> CastNamespace \<Rightarrow> (payload \<Rightarrow> ('r response \<times> string list) result)
     \<Rightarrow> int \<Rightarrow> byte list \<Rightarrow> 32 word \<Rightarrow> channel \<Rightarrow> ('r response \<times> channel) result option" where
  "receive_loop_msg e fs fp ns cb ej tstresp reqTimeout st =
     (if 0 < sint reqTimeout
      then (case receive_pass e fs fp ns cb ej tstresp reqTimeout st of
              Return retval st' \<Rightarrow> Some (Returns (retval, st'))
            | Again left st' \<Rightarrow> receive_loop_msg e fs fp ns cb ej tstresp left st'
            | Crash \<Rightarrow> Some Undefined)
      else Some (Returns (RespNull, st)))"

declare receive_loop_msg.simps [code]

text \<open>
  \<open>castReceiveMessage\<close> as the source defines it, with six parameters: the declaration in
  the header and the callers have a seventh, \<open>requestId\<close>, that the definition neither
  takes nor compares.  \<open>tstresp\<close> stands for the globals \<open>_cptl_tstresp\<close> and
  \<open>_cptl_tstresplen\<close> that the callers set before the call.  The \<open>long\<close> of the
  settings is assigned to the \<open>int32_t reqTimeout\<close>, which keeps its low 32 bits.
\<close>

definition castReceiveMessage ::
  "msg_env \<Rightarrow> byte list \<Rightarrow> channel \<Rightarrow> int \<Rightarrow> int \<Rightarrow> CastNamespace
     \<Rightarrow> (payload \<Rightarrow> ('r response \<times> string list) result) \<Rightarrow> int
     \<Rightarrow> ('r response \<times> channel) result option" where
  "castReceiveMessage e tstresp st forSenderSession fromPortalReceiver ns responseCallback
       expJsonResponse =
     receive_loop_msg e forSenderSession fromPortalReceiver ns responseCallback expJsonResponse
       tstresp (ucast (messageTimeout e)) st"


section \<open>Cast messages: ping and application availability\<close>

text \<open>
  The markers that the callbacks return (\<open>_pongOk\<close>, \<open>_appIsAvail\<close>, \<open>_appNotAvail\<close>): the
  callers compare the pointers.
\<close>

datatype marker = pongOk | appIsAvail | appNotAvail

text \<open>The canned frames of the test mode.\<close>

definition tstPongResp :: "byte list" where
  "tstPongResp =
    [0x00, 0x00, 0x00, 0x54, 0x08, 0x00, 0x12, 0x0A, 0x72, 0x65, 0x63, 0x65,
     0x69, 0x76, 0x65, 0x72, 0x2D, 0x30, 0x1A, 0x08, 0x73, 0x65, 0x6E, 0x64,
     0x65, 0x72, 0x2D, 0x30, 0x22, 0x27, 0x75, 0x72, 0x6E, 0x3A, 0x78, 0x2D,
     0x63, 0x61, 0x73, 0x74, 0x3A, 0x63, 0x6F, 0x6D, 0x2E, 0x67, 0x6F, 0x6F,
     0x67, 0x6C, 0x65, 0x2E, 0x63, 0x61, 0x73, 0x74, 0x2E, 0x74, 0x70, 0x2E,
     0x68, 0x65, 0x61, 0x72, 0x74, 0x62, 0x65, 0x61, 0x74, 0x28, 0x00, 0x32,
     0x0F, 0x7B, 0x22, 0x74, 0x79, 0x70, 0x65, 0x22, 0x3A, 0x22, 0x50, 0x4F,
     0x4E, 0x47, 0x22, 0x7D]"

definition appAvailResp :: "byte list" where
  "appAvailResp =
    [0x00, 0x00, 0x00, 0xA2, 0x08, 0x00, 0x12, 0x0A, 0x72, 0x65, 0x63, 0x65,
     0x69, 0x76, 0x65, 0x72, 0x2D, 0x30, 0x1A, 0x08, 0x73, 0x65, 0x6E, 0x64,
     0x65, 0x72, 0x2D, 0x30, 0x22, 0x23, 0x75, 0x72, 0x6E, 0x3A, 0x78, 0x2D,
     0x63, 0x61, 0x73, 0x74, 0x3A, 0x63, 0x6F, 0x6D, 0x2E, 0x67, 0x6F, 0x6F,
     0x67, 0x6C, 0x65, 0x2E, 0x63, 0x61, 0x73, 0x74, 0x2E, 0x72, 0x65, 0x63,
     0x65, 0x69, 0x76, 0x65, 0x72, 0x28, 0x00, 0x32, 0x61, 0x7B, 0x22, 0x61,
     0x76, 0x61, 0x69, 0x6C, 0x61, 0x62, 0x69, 0x6C, 0x69, 0x74, 0x79, 0x22,
     0x3A, 0x7B, 0x22, 0x30, 0x32, 0x38, 0x33, 0x34, 0x36, 0x34, 0x38, 0x22,
     0x3A, 0x22, 0x41, 0x50, 0x50, 0x5F, 0x41, 0x56, 0x41, 0x49, 0x4C, 0x41,
     0x42, 0x4C, 0x45, 0x22, 0x7D, 0x2C, 0x22, 0x72, 0x65, 0x71, 0x75, 0x65,
     0x73, 0x74, 0x49, 0x64, 0x22, 0x3A, 0x31, 0x2C, 0x22, 0x72, 0x65, 0x73,
     0x70, 0x6F, 0x6E, 0x73, 0x65, 0x54, 0x79, 0x70, 0x65, 0x22, 0x3A, 0x22,
     0x47, 0x45, 0x54, 0x5F, 0x41, 0x50, 0x50, 0x5F, 0x41, 0x56, 0x41, 0x49,
     0x4C, 0x41, 0x42, 0x49, 0x4C, 0x49, 0x54, 0x59, 0x22, 0x7D]"

definition appUnavailResp :: "byte list" where
  "appUnavailResp =
    [0x00, 0x00, 0x00, 0xA4, 0x08, 0x00, 0x12, 0x0A, 0x72, 0x65, 0x63, 0x65,
     0x69, 0x76, 0x65, 0x72, 0x2D, 0x30, 0x1A, 0x08, 0x73, 0x65, 0x6E, 0x64,
     0x65, 0x72, 0x2D, 0x30, 0x22, 0x23, 0x75, 0x72, 0x6E, 0x3A, 0x78, 0x2D,
     0x63, 0x61, 0x73, 0x74, 0x3A, 0x63, 0x6F, 0x6D, 0x2E, 0x67, 0x6F, 0x6F,
     0x67, 0x6C, 0x65, 0x2E, 0x63, 0x61, 0x73, 0x74, 0x2E, 0x72, 0x65, 0x63,
     0x65, 0x69, 0x76, 0x65, 0x72, 0x28, 0x00, 0x32, 0x63, 0x7B, 0x22, 0x61,
     0x76, 0x61, 0x69, 0x6C, 0x61, 0x62, 0x69, 0x6C, 0x69, 0x74, 0x79, 0x22,
     0x3A, 0x7B, 0x22, 0x30, 0x32, 0x38, 0x33, 0x34, 0x36, 0x34, 0x38, 0x22,
     0x3A, 0x22, 0x41, 0x50, 0x50, 0x5F, 0x55, 0x4E, 0x41, 0x56, 0x41, 0x49,
     0x4C, 0x41, 0x42, 0x4C, 0x45, 0x22, 0x7D, 0x2C, 0x22, 0x72, 0x65, 0x71,
     0x75, 0x65, 0x73, 0x74, 0x49, 0x64, 0x22, 0x3A, 0x31, 0x2C, 0x22, 0x72,
     0x65, 0x73, 0x70, 0x6F, 0x6E, 0x73, 0x65, 0x54, 0x79, 0x70, 0x65, 0x22,
     0x3A, 0x22, 0x47, 0x45, 0x54, 0x5F, 0x41, 0x50, 0x50, 0x5F, 0x41, 0x56,
     0x41, 0x49, 0x4C, 0x41, 0x42, 0x49, 0x4C, 0x49, 0x54, 0x59, 0x22, 0x7D]"

definition quoted :: "string \<Rightarrow> string" where
  "quoted s = [CHR 0x22] @ s @ [CHR 0x22]"

text \<open>The conversion \<open>%d\<close> of an \<open>int32_t\<close>.\<close>

definition show_int :: "int \<Rightarrow> string" where
  "show_int i = (if i < 0 then ''-'' @ decimal (nat (- i)) else decimal (nat i))"

text \<open>
  \<open>validatePongResponse\<close>.  The content is read as a JSON object without a look at its
  type.
\<close>

definition validatePongResponse :: "payload \<Rightarrow> (marker response \<times> string list) result" where
  "validatePongResponse c =
     (case c of
        JsonContent (JObject oval) \<Rightarrow>
          (case map_of oval ''type'' of
             Some (JString sval) \<Rightarrow>
               Returns (if sval = ''PONG'' then RespValue pongOk else RespNull, [])
           | _ \<Rightarrow> Returns (CPTL_RESP_ERROR, []))
      | _ \<Rightarrow> Undefined)"

text \<open>\<open>parseAvailabilityResponse\<close>, for the application id of the ini settings.\<close>

definition parseAvailabilityResponse :: "string \<Rightarrow> payload \<Rightarrow> (marker response \<times> string list) result" where
  "parseAvailabilityResponse appId c =
     (case c of
        JsonContent (JObject oval) \<Rightarrow>
          (case map_of oval ''responseType'' of
             Some (JString sval) \<Rightarrow>
               (if sval \<noteq> ''GET_APP_AVAILABILITY''
                then Returns (CPTL_RESP_ERROR, [''Invalid response to matched availability request''])
                else (case map_of oval ''availability'' of
                        Some (JObject availData) \<Rightarrow>
                          (case map_of availData appId of
                             Some (JString availStatus) \<Rightarrow>
                               (if availStatus = ''APP_AVAILABLE'' then Returns (RespValue appIsAvail, [])
                                else if availStatus = ''APP_UNAVAILABLE''
                                then Returns (RespValue appNotAvail, [])
                                else Returns (CPTL_RESP_ERROR,
                                       [''Invalid application availability status'']))
                           | _ \<Rightarrow> Returns (CPTL_RESP_ERROR,
                                    [''Missing/invalid application availability record'']))
                      | _ \<Rightarrow> Returns (CPTL_RESP_ERROR,
                               [''Missing/invalid availability status object''])))
           | _ \<Rightarrow> Returns (CPTL_RESP_ERROR, [''Invalid response to matched availability request'']))
      | _ \<Rightarrow> Undefined)"

text \<open>
  \<open>castDevicePing\<close>; \<open>None\<close> for the connection is \<open>NULL\<close>.  The seventh argument of the
  call, -1, has no parameter in the definition of \<open>castReceiveMessage\<close>.
\<close>

definition ping_request :: string where
  "ping_request = ''{'' @ quoted ''type'' @ '': '' @ quoted ''PING'' @ ''}''"

definition castDevicePing :: "msg_env \<Rightarrow> channel option \<Rightarrow> (int \<times> channel option) result option" where
  "castDevicePing e c =
     (case c of
        None \<Rightarrow> Some (Returns (-1, None))
      | Some st \<Rightarrow>
          (case castSendMessage e st 0 0 NS_HEARTBEAT (StringData ping_request) of
             Undefined \<Rightarrow> Some Undefined
           | Returns (rc, st1) \<Rightarrow>
               if rc < 0
               then Some (Returns (-1, Some (logs [Warning ''Failed to issue PING request''] st1)))
               else (case castReceiveMessage e tstPongResp st1 0 0 NS_HEARTBEAT
                            validatePongResponse 1 of
                       None \<Rightarrow> None
                     | Some Undefined \<Rightarrow> Some Undefined
                     | Some (Returns (retval, st2)) \<Rightarrow>
                         if retval \<noteq> RespValue pongOk
                         then Some (Returns (-1, Some (logs
                                [Warning ''Failed to obtain PONG response to PING request''] st2)))
                         else Some (Returns (0, Some st2)))))"

text \<open>
  \<open>castAppCheckAvailability\<close>.  \<open>++(conn->requestId)\<close> on the largest \<open>int32_t\<close> is an
  overflow the language leaves undefined.  The request is formatted into 1024 bytes.
  The identifier of the request is the seventh argument of the call of
  \<open>castReceiveMessage\<close>, for which the definition has no parameter.
\<close>

definition availability_request :: "string \<Rightarrow> 32 word \<Rightarrow> string" where
  "availability_request appId reqId =
     take 1023 (''{'' @ quoted ''type'' @ '': '' @ quoted ''GET_APP_AVAILABILITY'' @ '','' @
                quoted ''appId'' @ '': [ '' @ quoted appId @ '' ],'' @
                quoted ''requestId'' @ '': '' @ show_int (sint reqId) @ ''}'')"

definition castAppCheckAvailability ::
  "msg_env \<Rightarrow> channel option \<Rightarrow> (int \<times> channel option) result option" where
  "castAppCheckAvailability e c =
     (case c of
        None \<Rightarrow> Some (Returns (-1, None))
      | Some st \<Rightarrow>
          if sint (requestId (conn st)) = 2147483647 then Some Undefined
          else
            (let st0 = st\<lparr>conn := (conn st)\<lparr>requestId := requestId (conn st) + 1\<rparr>\<rparr>;
                 reqId = (if tstmode e \<noteq> 0 then 1 else requestId (conn st0))
             in case castSendMessage e st0 0 0 NS_RECEIVER
                       (StringData (availability_request (applicationId e) reqId)) of
                  Undefined \<Rightarrow> Some Undefined
                | Returns (rc, st1) \<Rightarrow>
                    if rc < 0
                    then Some (Returns (-1, Some (logs
                           [Warning ''Failed to issue application availability request''] st1)))
                    else (case castReceiveMessage e
                                 (if tstmode e = 1 then appAvailResp else appUnavailResp)
                                 st1 0 0 NS_RECEIVER
                                 (parseAvailabilityResponse (applicationId e)) 1 of
                            None \<Rightarrow> None
                          | Some Undefined \<Rightarrow> Some Undefined
                          | Some (Returns (retval, st2)) \<Rightarrow>
                              if retval \<noteq> RespValue appIsAvail \<and> retval \<noteq> RespValue appNotAvail
                              then Some (Returns (-1, Some (logs
                                     [Warning ''Unable to obtain availability response''] st2)))
                              else if retval = RespValue appNotAvail
                              then Some (Returns (-1, Some (logs
                                     [Warning ''Target application is not available on device''] st2)))
                              else Some (Returns (0, Some st2)))))"

text \<open>\<open>castDeviceAuth\<close> is a stub in the source.\<close>

definition castDeviceAuth :: "channel option \<Rightarrow> int \<times> channel option" where
  "castDeviceAuth c = (-1, c)"


section \<open>Cast messages: concrete frames, decoders and settings\<close>

text \<open>
  The JSON values of the payloads of the three canned frames; \<open>decode_canned\<close> is a
  decoder that knows these three texts and reports an error value for every other one.
\<close>

definition pong_json :: json where
  "pong_json = JObject [(''type'', JString ''PONG'')]"

definition avail_json :: "string \<Rightarrow> json" where
  "avail_json status =
     JObject [(''availability'', JObject [(''02834648'', JString status)]),
              (''requestId'', JNumber 1),
              (''responseType'', JString ''GET_APP_AVAILABILITY'')]"

definition decode_canned :: "byte list \<Rightarrow> json option" where
  "decode_canned txt =
     (if txt = drop 73 tstPongResp then Some pong_json
      else if txt = drop 69 appAvailResp then Some (avail_json ''APP_AVAILABLE'')
      else if txt = drop 69 appUnavailResp then Some (avail_json ''APP_UNAVAILABLE'')
      else Some JError)"

text \<open>Memory that holds a list of bytes from its base on, and \<open>old\<close> behind them.\<close>

definition tstPongResp_mem :: "(nat \<Rightarrow> byte) \<Rightarrow> nat \<Rightarrow> byte" where
  "tstPongResp_mem old i = (if i < 88 then tstPongResp ! i else old i)"

text \<open>
  A frame of one byte more than the length prefix can express with the four bytes of the
  prefix added: the prefix \<open>FF FF FF FD\<close> and the first byte of the body.
\<close>

definition wrapping_prefix :: "byte list" where
  "wrapping_prefix = [0xFF, 0xFF, 0xFF, 0xFD, 0x08]"

definition wrapping_prefix_mem :: "nat \<Rightarrow> byte" where
  "wrapping_prefix_mem i = (if i < 5 then wrapping_prefix ! i else 0)"

text \<open>
  The canned pong frame with protocol version 1 in place of 0, followed by the canned
  pong frame itself.
\<close>

definition version_one_then_pong :: "byte list" where
  "version_one_then_pong = (tstPongResp[5 := 1]) @ tstPongResp"

definition version_one_then_pong_mem :: "nat \<Rightarrow> byte" where
  "version_one_then_pong_mem i = (if i < 176 then version_one_then_pong ! i else 0)"

text \<open>Values for the variables that the parser does not initialise.\<close>

definition stale_locals :: parse_state where
  "stale_locals =
     \<lparr>rdBuffer = \<lparr>buffer = (\<lambda>i. 0), blength = 0, offset = 0\<rparr>, msgLen = 0, fragLen = 0,
      fragVarInt = 0, msgProtoVersion = 0, namespace = NS_UNKNOWN, contentType = 0,
      isSenderSession = 0, isPortalReceiver = 0, content = PtrWild, contentLen = 0,
      warnings = []\<rparr>"

definition parser_entry :: "WXBuffer \<Rightarrow> parse_state" where
  "parser_entry b = stale_locals\<lparr>rdBuffer := b\<rparr>"

text \<open>
  The settings of the ini defaults with libraries that succeed: in test mode \<open>m\<close>, and
  outside the test mode with a device that answers every read with the frame \<open>frame\<close>
  (the head and the rest of it).
\<close>

definition msg_env_test :: "int \<Rightarrow> msg_env" where
  "msg_env_test m =
     \<lparr>tstmode = m, messageTimeout = 500, applicationId = ''02834648'',
      pack_header_ok = True, pack_payload_ok = True, pack_prefix_ok = True,
      append_ok = True, ssl_write_ok = True, json_decode = decode_canned,
      reads = (\<lambda>k. SslFailure), uninit = stale_locals\<rparr>"

definition msg_env_device :: "byte \<Rightarrow> byte list \<Rightarrow> msg_env" where
  "msg_env_device b frame = (msg_env_test 0)\<lparr>reads := (\<lambda>k. ReadData b frame)\<rparr>"

text \<open>
  A connection as \<open>castDeviceConnect\<close> leaves it in test mode (no SSL, not connected),
  and an established one, each with an empty rolling buffer; \<open>n\<close> is the counter of
  request identifiers.
\<close>

definition test_channel :: "32 word \<Rightarrow> channel" where
  "test_channel n =
     \<lparr>conn = \<lparr>ssl = False, isConnected = False,
              readBuffer = \<lparr>buffer = (\<lambda>i. 0), blength = 0, offset = 0\<rparr>, requestId = n\<rparr>,
      pos = 0, log = []\<rparr>"

definition device_channel :: "32 word \<Rightarrow> channel" where
  "device_channel n =
     \<lparr>conn = \<lparr>ssl = True, isConnected = True,
              readBuffer = \<lparr>buffer = (\<lambda>i. 0), blength = 0, offset = 0\<rparr>, requestId = n\<rparr>,
      pos = 0, log = []\<rparr>"

text \<open>
  The canned pong frame addressed to the session \<open>castptl-nnn\<close> in place of \<open>sender-0\<close>
  (three bytes longer).
\<close>

definition session_pong :: "byte list" where
  "session_pong =
     (take 18 tstPongResp)[3 := 0x57] @ [0x1A, 0x0B] @ bytes ''castptl-nnn'' @ drop 28 tstPongResp"

definition session_pong_mem :: "nat \<Rightarrow> byte" where
  "session_pong_mem i = (if i < 91 then session_pong ! i else 0)"

text \<open>The length prefix of the frame at the front of the rolling buffer.\<close>

definition pending_length :: "parse_state \<Rightarrow> 32 word" where
  "pending_length s = msgLen (read_length s)"


section \<open>Cast messages: the operations on a connection\<close>

text \<open>
  The calls that the extension makes on an open connection, each under the settings in
  force when it is made (the test mode can be switched between two calls), and a run of
  such calls.
\<close>

datatype operation = Ping | AppAvailable | Auth

definition perform ::
  "msg_env \<Rightarrow> operation \<Rightarrow> channel option \<Rightarrow> (int \<times> channel option) result option" where
  "perform e op c =
     (case op of
        Ping \<Rightarrow> castDevicePing e c
      | AppAvailable \<Rightarrow> castAppCheckAvailability e c
      | Auth \<Rightarrow> Some (Returns (castDeviceAuth c)))"

fun session :: "(msg_env \<times> operation) list \<Rightarrow> channel option \<Rightarrow> channel option result option" where
  "session [] c = Some (Returns c)"
| "session ((e, op) # ops) c =
     (case perform e op c of
        None \<Rightarrow> None
      | Some Undefined \<Rightarrow> Some Undefined
      | Some (Returns (rc, c')) \<Rightarrow> session ops c')"

definition requests :: "(msg_env \<times> operation) list \<Rightarrow> nat" where
  "requests ops = length (filter (\<lambda>(e, op). op = AppAvailable) ops)"


section \<open>Discovery without a selected family\<close>

text \<open>
  Claim C9.  With \<open>ipMode = 0\<close> both passes of the family loop are skipped: for every
  \<open>waitMs\<close> and every environment the call returns the empty list and the trace of socket
  operations is empty (no socket opened, no query sent, no wait, no read).
\<close>

theorem castDiscover_ipMode_0:
  "castDiscover e 0 waitTm = Some (Returns ([], []))"
  by (simp add: castDiscover_def discover_family_def)

theorem castDiscover_ipMode_0_witness:
  "castDiscover env_test 0 0 = Some (Returns ([], []))"
  by (rule castDiscover_ipMode_0)


section \<open>Decoding the canned datagrams\<close>

lemma WXBuffer_Append_Empty:
  "WXBuffer_Append (WXBuffer_Empty b) dat =
     \<lparr>buffer = (\<lambda>i. if i < length dat then dat ! i else buffer b i),
      blength = length dat, offset = 0\<rparr>"
  by (cases b) (auto simp: WXBuffer_Append_def WXBuffer_Empty_def fun_eq_iff)

lemma length_tstRespOne: "length tstRespOne = 356"
  by (simp add: tstRespOne_def)

lemma length_tstRespTwo: "length tstRespTwo = 400"
  by (simp add: tstRespTwo_def)

lemma Append_tstRespOne:
  "WXBuffer_Append (WXBuffer_Empty b) tstRespOne =
     \<lparr>buffer = tstRespOne_mem (buffer b), blength = 356, offset = 0\<rparr>"
  by (simp add: WXBuffer_Append_Empty length_tstRespOne tstRespOne_mem_def fun_eq_iff)

lemma Append_tstRespTwo:
  "WXBuffer_Append (WXBuffer_Empty b) tstRespTwo =
     \<lparr>buffer = tstRespTwo_mem (buffer b), blength = 400, offset = 0\<rparr>"
  by (simp add: WXBuffer_Append_Empty length_tstRespTwo tstRespTwo_mem_def fun_eq_iff)

lemma strcpy_tstOne: "strcpy_ipAddr (bytes ''10.11.12.13'') wrk_prepared = Some wrk_tstOne"
  by code_simp

lemma strcpy_tstTwo: "strcpy_ipAddr (bytes ''2016:cd8:4567:2cd0::12'') wrk_prepared = Some wrk_tstTwo"
  by code_simp

lemma decode_tstRespOne_mem:
  "decode_response
     \<lparr>msgBuffer = \<lparr>buffer = tstRespOne_mem old, blength = 356, offset = 0\<rparr>,
      wrk = wrk_tstOne, txtBuff = t0\<rparr>
   = Some (Device tstDeviceOne)"
  by code_simp

lemma decode_tstRespTwo_mem:
  "decode_response
     \<lparr>msgBuffer = \<lparr>buffer = tstRespTwo_mem old, blength = 400, offset = 0\<rparr>,
      wrk = wrk_tstTwo, txtBuff = t0\<rparr>
   = Some (Device tstDeviceTwo)"
  by code_simp

lemma decode_tstRespOne:
  "decode_response
     \<lparr>msgBuffer = WXBuffer_Append (WXBuffer_Empty b0) tstRespOne, wrk = wrk_tstOne, txtBuff = t0\<rparr>
   = Some (Device tstDeviceOne)"
  by (simp only: Append_tstRespOne decode_tstRespOne_mem)

lemma decode_tstRespTwo:
  "decode_response
     \<lparr>msgBuffer = WXBuffer_Append (WXBuffer_Empty b0) tstRespTwo, wrk = wrk_tstTwo, txtBuff = t0\<rparr>
   = Some (Device tstDeviceTwo)"
  by (simp only: Append_tstRespTwo decode_tstRespTwo_mem)

section \<open>Discovery in test mode\<close>

lemma handle_tstRespOne:
  assumes "inet_ntop e AF_INET addr = ''10.11.12.13''"
  shows "\<exists>st'. handle_datagram e tstRespOne AF_INET addr t st = Some (Next t st') \<and>
               retDevices st' = retDevices st @ [tstDeviceOne]"
  using assms by (simp add: handle_datagram_def strcpy_tstOne decode_tstRespOne)

lemma handle_tstRespTwo:
  assumes "inet_ntop e AF_INET6 addr = ''2016:cd8:4567:2cd0::12''"
  shows "\<exists>st'. handle_datagram e tstRespTwo AF_INET6 addr t st = Some (Next t st') \<and>
               retDevices st' = retDevices st @ [tstDeviceTwo]"
  using assms by (simp add: handle_datagram_def strcpy_tstTwo decode_tstRespTwo)

lemma receive_step_canned:
  assumes "cptl_tstmode e \<noteq> 0" "libc_ok e"
    and "wait_rc r \<noteq> WXNRC_ERROR" "respLen (recv r) = 0" "sint (wait_timeout r) \<le> 0"
  shows "\<exists>st'. receive_step e modeIdx r st = Some (Next (wait_timeout r) st') \<and>
               retDevices st' = retDevices st @ [canned_device modeIdx]"
proof (cases "modeIdx = 1")
  case True
  from assms(2) have "inet_ntop e AF_INET (inet_pton e AF_INET ''10.11.12.13'') = ''10.11.12.13''"
    by (simp add: libc_ok_def)
  from handle_tstRespOne [OF this, of "wait_timeout r" "st\<lparr>trace := trace st @ [Wait, RecvFrom]\<rparr>"]
  show ?thesis
    using assms True by (simp add: receive_step_def canned_device_def Let_def)
next
  case False
  from assms(2) have "inet_ntop e AF_INET6 (inet_pton e AF_INET6 ''2016:cd8:4567:2cd0::12'')
      = ''2016:cd8:4567:2cd0::12''"
    by (simp add: libc_ok_def)
  from handle_tstRespTwo [OF this, of "wait_timeout r" "st\<lparr>trace := trace st @ [Wait, RecvFrom]\<rparr>"]
  show ?thesis
    using assms False by (simp add: receive_step_def canned_device_def Let_def)
qed

lemma receive_step_skipped:
  assumes "cptl_tstmode e \<noteq> 0" "wait_rc r \<noteq> WXNRC_ERROR" "0 < sint (wait_timeout r)"
  shows "\<exists>st'. receive_step e modeIdx r st = Some (Next (wait_timeout r) st') \<and>
               retDevices st' = retDevices st"
  using assms by (simp add: receive_step_def Let_def)

lemma receive_loop_test:
  assumes tst: "cptl_tstmode e \<noteq> 0" and libc: "libc_ok e"
  shows "0 < sint t \<Longrightarrow>
    (\<forall>j<n. wait_rc (rs (k + j)) \<noteq> WXNRC_ERROR \<and> 0 < sint (wait_timeout (rs (k + j)))) \<Longrightarrow>
    wait_rc (rs (k + n)) \<noteq> WXNRC_ERROR \<Longrightarrow> respLen (recv (rs (k + n))) = 0 \<Longrightarrow>
    sint (wait_timeout (rs (k + n))) \<le> 0 \<Longrightarrow>
    \<exists>st'. receive_loop e modeIdx rs k t st = Some (Returns st') \<and>
          retDevices st' = retDevices st @ [canned_device modeIdx]"
proof (induction n arbitrary: k t st)
  case 0
  from receive_step_canned [OF tst libc, of "rs k" modeIdx st] 0
  obtain st' where s: "receive_step e modeIdx (rs k) st = Some (Next (wait_timeout (rs k)) st')"
    and d: "retDevices st' = retDevices st @ [canned_device modeIdx]"
    by auto
  have "receive_loop e modeIdx rs k t st = receive_loop e modeIdx rs (k + 1) (wait_timeout (rs k)) st'"
    using 0 s by (subst receive_loop.simps) simp
  also have "\<dots> = Some (Returns st')"
    using 0 by (subst receive_loop.simps) simp
  finally show ?case using d by simp
next
  case (Suc n)
  from Suc.prems(2) have r0: "wait_rc (rs k) \<noteq> WXNRC_ERROR" "0 < sint (wait_timeout (rs k))"
    by (metis add.right_neutral zero_less_Suc)+
  from receive_step_skipped [OF tst r0, of modeIdx st]
  obtain st1 where s: "receive_step e modeIdx (rs k) st = Some (Next (wait_timeout (rs k)) st1)"
    and d: "retDevices st1 = retDevices st"
    by auto
  have step: "receive_loop e modeIdx rs k t st = receive_loop e modeIdx rs (k + 1) (wait_timeout (rs k)) st1"
    using Suc.prems(1) s by (subst receive_loop.simps) simp
  have "\<exists>st'. receive_loop e modeIdx rs (k + 1) (wait_timeout (rs k)) st1 = Some (Returns st') \<and>
          retDevices st' = retDevices st1 @ [canned_device modeIdx]"
  proof (rule Suc.IH)
    show "0 < sint (wait_timeout (rs k))" by (rule r0)
    show "\<forall>j<n. wait_rc (rs (k + 1 + j)) \<noteq> WXNRC_ERROR \<and> 0 < sint (wait_timeout (rs (k + 1 + j)))"
      using Suc.prems(2) by (metis Suc_less_eq add_Suc_right add_Suc_shift Suc_eq_plus1)
    show "wait_rc (rs (k + 1 + n)) \<noteq> WXNRC_ERROR" using Suc.prems(3) by simp
    show "respLen (recv (rs (k + 1 + n))) = 0" using Suc.prems(4) by simp
    show "sint (wait_timeout (rs (k + 1 + n))) \<le> 0" using Suc.prems(5) by simp
  qed
  with step d show ?case by simp
qed

lemma discover_family_test:
  assumes tst: "cptl_tstmode e \<noteq> 0" and libc: "libc_ok e"
    and sel: "of_nat modeIdx AND ipMode \<noteq> 0"
    and ok: "sockets_ok (families e modeIdx)"
    and t: "0 < sint waitTm"
    and q: "quiet_until (rounds (families e modeIdx)) n"
  shows "\<exists>st'. discover_family e ipMode waitTm modeIdx st = Some (Returns st') \<and>
          retDevices st' = retDevices st @ [canned_device modeIdx]"
proof -
  from q have
    "\<forall>j<n. wait_rc (rounds (families e modeIdx) (0 + j)) \<noteq> WXNRC_ERROR \<and>
            0 < sint (wait_timeout (rounds (families e modeIdx) (0 + j)))"
    "wait_rc (rounds (families e modeIdx) (0 + n)) \<noteq> WXNRC_ERROR"
    "respLen (recv (rounds (families e modeIdx) (0 + n))) = 0"
    "sint (wait_timeout (rounds (families e modeIdx) (0 + n))) \<le> 0"
    by (simp_all add: quiet_until_def)
  note loop = receive_loop_test [OF tst libc t this, of modeIdx]
  let ?b = "WXBuffer_Append (WXBuffer_Empty \<lparr>buffer = mem st, blength = 0, offset = 0\<rparr>) mdns_query"
  let ?tr = "trace st @ [OpenUDPClient (if modeIdx = 1 then ''224.0.0.251'' else ''ff02::fb''),
               SetNonBlockingState, SetMulticast (ai_family (families e modeIdx)), SendTo mdns_query]"
  from loop [of "st\<lparr>mem := buffer ?b, trace := ?tr\<rparr>"]
  show ?thesis
    using sel ok by (simp add: discover_family_def sockets_ok_def Let_def)
qed

lemma discover_family_skipped:
  assumes "of_nat modeIdx AND ipMode \<noteq> 0" "\<not> sockets_ok (families e modeIdx)"
  shows "\<exists>st'. discover_family e ipMode waitTm modeIdx st = Some (Returns st') \<and>
          retDevices st' = retDevices st"
  using assms by (auto simp: discover_family_def sockets_ok_def Let_def)

lemma discover_family_records:
  assumes "cptl_tstmode e \<noteq> 0" and "libc_ok e"
    and "of_nat modeIdx AND ipMode \<noteq> 0"
    and "0 < sint waitTm"
    and "sockets_ok (families e modeIdx) \<longrightarrow> quiet_until (rounds (families e modeIdx)) n"
  shows "\<exists>st'. discover_family e ipMode waitTm modeIdx st = Some (Returns st') \<and>
          retDevices st' = retDevices st @
            (if sockets_ok (families e modeIdx) then [canned_device modeIdx] else [])"
proof (cases "sockets_ok (families e modeIdx)")
  case True
  with assms(5) have "quiet_until (rounds (families e modeIdx)) n" by simp
  from discover_family_test [OF assms(1,2,3) True assms(4) this, of st] True
  show ?thesis by simp
next
  case False
  from discover_family_skipped [OF assms(3) False, of waitTm st] False
  show ?thesis by simp
qed

lemma libc_ok_env_test: "libc_ok env_test"
  unfolding libc_ok_def env_test_def by code_simp

lemma libc_ok_env_no_inet6: "libc_ok env_no_inet6"
  unfolding libc_ok_def env_no_inet6_def env_test_def by code_simp

lemma quiet_until_quiet_round: "quiet_until (\<lambda>k. quiet_round) 0"
  by (simp add: quiet_until_def quiet_round_def respLen_def)

text \<open>
  Claim C1, as the code has it.  In test mode 1 with both families selected, an effective
  wait that is positive as the \<open>int\<close> it is stored in (the wait asked for, or the low 32
  bits of the configured one when none is asked for), a C library that prints the two
  canned addresses as written, and a wait that, for each family whose socket opens,
  configures and sends, ends (after any number of skipped passes) in a timeout with an
  empty read, \<open>Discover\<close> returns exactly the canned record of each family whose socket
  opens, is made non-blocking, joins the multicast group and sends the query, the IPv4
  record first: both records when both families do, and no record for a family whose
  setup or send fails.
\<close>

theorem castDiscover_test_mode:
  assumes "cptl_tstmode e = 1"
    and "1 AND ipMode \<noteq> 0" and "2 AND ipMode \<noteq> 0"
    and "0 < sint (if sint waitTm \<le> 0 then ucast (discoveryTimeout e) else waitTm)"
    and "libc_ok e"
    and "sockets_ok (families e 1) \<longrightarrow> quiet_until (rounds (families e 1)) n1"
    and "sockets_ok (families e 2) \<longrightarrow> quiet_until (rounds (families e 2)) n2"
  shows "map_option (map_result fst) (castDiscover e ipMode waitTm)
           = Some (Returns ((if sockets_ok (families e 1) then [tstDeviceOne] else []) @
                            (if sockets_ok (families e 2) then [tstDeviceTwo] else [])))"
proof -
  let ?w = "if sint waitTm \<le> 0 then ucast (discoveryTimeout e) else waitTm"
  let ?st0 = "\<lparr>mem = msgBufferData e, retDevices = [], trace = []\<rparr>"
  have tst: "cptl_tstmode e \<noteq> 0" using assms(1) by simp
  have sel: "of_nat 1 AND ipMode \<noteq> 0" "of_nat 2 AND ipMode \<noteq> 0"
    using assms(2,3) by simp_all
  from discover_family_records [OF tst assms(5) sel(1) assms(4) assms(6), of ?st0]
  obtain st1 where 1: "discover_family e ipMode ?w 1 ?st0 = Some (Returns st1)"
    and d1: "retDevices st1 = (if sockets_ok (families e 1) then [tstDeviceOne] else [])"
    by (auto simp: canned_device_def)
  from discover_family_records [OF tst assms(5) sel(2) assms(4) assms(7), of st1]
  obtain st2 where 2: "discover_family e ipMode ?w 2 st1 = Some (Returns st2)"
    and d2: "retDevices st2 = retDevices st1 @
               (if sockets_ok (families e 2) then [tstDeviceTwo] else [])"
    by (auto simp: canned_device_def)
  show ?thesis
    using 1 2 d1 d2 by (simp add: castDiscover_def Let_def)
qed

theorem castDiscover_test_mode_witness:
  "cptl_tstmode env_test = 1 \<and> sockets_ok (families env_test 1) \<and> sockets_ok (families env_test 2) \<and>
   map_option (map_result fst) (castDiscover env_test 3 1) = Some (Returns [tstDeviceOne, tstDeviceTwo])"
  using castDiscover_test_mode [of env_test 3 1 0 0] libc_ok_env_test quiet_until_quiet_round
  by (simp add: env_test_def family_ok_def sockets_ok_def)

text \<open>
  The claim as stated fails: on a host where the IPv6 socket cannot be opened the second
  family is skipped, and test mode 1 with \<open>ipMode = 3\<close> returns the IPv4 record alone.
\<close>

theorem castDiscover_test_mode_no_inet6:
  "cptl_tstmode env_no_inet6 = 1 \<and>
   map_option (map_result fst) (castDiscover env_no_inet6 3 1) = Some (Returns [tstDeviceOne])"
proof -
  let ?st0 = "\<lparr>mem = msgBufferData env_no_inet6, retDevices = [], trace = []\<rparr>"
  have tst: "cptl_tstmode env_no_inet6 \<noteq> 0"
    by (simp add: env_no_inet6_def env_test_def)
  have ok: "sockets_ok (families env_no_inet6 1)"
    by (simp add: env_no_inet6_def env_test_def family_ok_def sockets_ok_def)
  have q: "quiet_until (rounds (families env_no_inet6 1)) 0"
    using quiet_until_quiet_round by (simp add: env_no_inet6_def env_test_def family_ok_def)
  have sel: "of_nat 1 AND (3 :: 32 word) \<noteq> 0" "of_nat 2 AND (3 :: 32 word) \<noteq> 0" by simp_all
  from discover_family_test [OF tst libc_ok_env_no_inet6 sel(1) ok _ q, of 1 ?st0]
  obtain st1 where 1: "discover_family env_no_inet6 3 1 1 ?st0 = Some (Returns st1)"
    and d1: "retDevices st1 = [tstDeviceOne]"
    by (auto simp: canned_device_def)
  have "\<not> sockets_ok (families env_no_inet6 2)"
    by (simp add: env_no_inet6_def env_test_def family_ok_def sockets_ok_def)
  from discover_family_skipped [OF sel(2) this, of 1 st1]
  obtain st2 where 2: "discover_family env_no_inet6 3 1 2 st1 = Some (Returns st2)"
    and d2: "retDevices st2 = retDevices st1"
    by auto
  show ?thesis
    using 1 2 d1 d2 by (simp add: castDiscover_def Let_def env_no_inet6_def env_test_def)
qed

section \<open>Name decoding need not return\<close>

lemma Append_cyclicName:
  "WXBuffer_Append (WXBuffer_Empty b) cyclicName =
     \<lparr>buffer = cyclicName_mem (buffer b), blength = 26, offset = 0\<rparr>"
  by (simp add: WXBuffer_Append_Empty cyclicName_mem_def cyclicName_def fun_eq_iff)

lemma cyclicName_mem_simps:
  "cyclicName_mem old 12 = 1" "cyclicName_mem old 13 = 0x61"
  "cyclicName_mem old 14 = 0xC0" "cyclicName_mem old 15 = 0x0C"
  by (simp_all add: cyclicName_mem_def cyclicName_def)

lemma in_cycle_step:
  assumes "in_cycle s"
  shows "qoffset s < limit s"
    and "slen (qname_read (cyclicName_mem old) 26 s) \<noteq> 0"
    and "in_cycle (qname_segment (cyclicName_mem old) (qname_read (cyclicName_mem old) 26 s))"
  using assms
  by (simp_all add: in_cycle_def qname_read_def qname_segment_def cyclicName_mem_simps Let_def)

lemma in_cycle_no_return:
  assumes "parseQName_loop m len s = Some y"
  shows "\<not> (m = cyclicName_mem old \<and> len = 26 \<and> in_cycle s)"
proof (rule parseQName_loop.raw_induct
    [where P = "\<lambda>m len s y. \<not> (m = cyclicName_mem old \<and> len = 26 \<and> in_cycle s)", OF _ assms])
  fix loop :: "(nat \<Rightarrow> byte) \<Rightarrow> nat \<Rightarrow> qname_state \<Rightarrow> qname_state option"
  fix m len s y
  assume IH: "\<And>m len s y. loop m len s = Some y \<Longrightarrow>
                 \<not> (m = cyclicName_mem old \<and> len = 26 \<and> in_cycle s)"
    and body: "(if qoffset s < limit s
                then let s1 = qname_read m len s
                     in if slen s1 = 0 then Some s1 else loop m len (qname_segment m s1)
                else Some s) = Some y"
  show "\<not> (m = cyclicName_mem old \<and> len = 26 \<and> in_cycle s)"
  proof
    assume a: "m = cyclicName_mem old \<and> len = 26 \<and> in_cycle s"
    then have c: "in_cycle s" by simp
    let ?s' = "qname_segment (cyclicName_mem old) (qname_read (cyclicName_mem old) 26 s)"
    from body a in_cycle_step(1) [OF c] in_cycle_step(2) [OF c, of old]
    have "loop (cyclicName_mem old) 26 ?s' = Some y"
      by (simp add: Let_def)
    from IH [OF this] in_cycle_step(3) [OF c, of old] show False by simp
  qed
qed

lemma in_cycle_None: "in_cycle s \<Longrightarrow> parseQName_loop (cyclicName_mem old) 26 s = None"
  using in_cycle_no_return [of "cyclicName_mem old" 26 s _ old] by (cases "parseQName_loop (cyclicName_mem old) 26 s") auto

lemma cyclicName_loop_None:
  "parseQName_loop (cyclicName_mem old) 26
     \<lparr>ptr = 12, qoffset = 12, limit = 26, redirect = False, slen = 0, retVal = []\<rparr> = None"
  apply (subst parseQName_loop.simps)
  apply (simp add: qname_read_def qname_segment_def cyclicName_mem_simps Let_def)
  apply (subst parseQName_loop.simps)
  apply (simp add: qname_read_def qname_segment_def cyclicName_mem_simps Let_def)
  apply (rule in_cycle_None)
  apply (simp add: in_cycle_def)
  done

text \<open>
  Claim C2 asks that \<open>parseQName\<close> returns on every input.  On the datagram
  \<open>cyclicName\<close> it does not: once the pointer has been followed the cursor \<open>offset\<close> stands
  still, the loop test \<open>offset < limit\<close> stays true, and the decoder walks the cycle
  label, pointer, label, ... for ever (appending a fragment each time round).  The header
  of the datagram passes the checks of the receive loop, so decoding the response does not
  return either.
\<close>

theorem parseQName_cycle_no_return:
  "parseQName ((WXBuffer_Append (WXBuffer_Empty b) cyclicName)\<lparr>offset := 12\<rparr>) (-1) = None \<and>
   decode_response \<lparr>msgBuffer = WXBuffer_Append (WXBuffer_Empty b) cyclicName, wrk = w, txtBuff = t\<rparr> = None"
proof -
  have p: "parseQName \<lparr>buffer = cyclicName_mem (buffer b), blength = 26, offset = 12\<rparr> (-1) = None"
    by (simp add: parseQName_def cyclicName_loop_None)
  have h: "unpack_header \<lparr>buffer = cyclicName_mem (buffer b), blength = 26, offset = 0\<rparr> =
       Some ((0xFEED, 0x8400, 0, 1, 0, 0), \<lparr>buffer = cyclicName_mem (buffer b), blength = 26, offset = 12\<rparr>)"
    by (simp add: unpack_header_def unpack_n_def cyclicName_mem_def cyclicName_def)
  show ?thesis
    by (simp add: Append_cyclicName decode_response_def h p)
qed

theorem parseQName_cycle_no_return_witness:
  "parseQName ((WXBuffer_Append (WXBuffer_Empty \<lparr>buffer = (\<lambda>i. 0), blength = 0, offset = 0\<rparr>)
                  cyclicName)\<lparr>offset := 12\<rparr>) (-1) = None \<and>
   decode_response
     \<lparr>msgBuffer = WXBuffer_Append (WXBuffer_Empty \<lparr>buffer = (\<lambda>i. 0), blength = 0, offset = 0\<rparr>)
                    cyclicName,
      wrk = wrk_tstOne, txtBuff = ''10.11.12.13''\<rparr> = None"
  by (rule parseQName_cycle_no_return)


section \<open>Names behind a compression pointer\<close>

lemma label_length_not_pointer:
  assumes "n \<le> 63"
  shows "n AND 0xC0 \<noteq> (0xC0::nat)"
proof -
  have "int (n AND 0xC0) \<le> int n"
    unfolding of_nat_and_eq by (rule AND_upper1) simp
  then have "n AND 0xC0 \<le> n" by simp
  then show ?thesis using assms by simp
qed

lemma buffer_offset_update [simp]:
  "buffer (b\<lparr>offset := q\<rparr>) = buffer b" "blength (b\<lparr>offset := q\<rparr>) = blength b"
  by simp_all





subsection \<open>Records behind owner names of either form\<close>














section \<open>The address of a record\<close>

lemma strcpy_long_source:
  "strcpy_ipAddr (bytes long_source_text) wrk_prepared = Some wrk_long_source"
  by code_simp

lemma decode_long_source:
  "decode_response
     \<lparr>msgBuffer = \<lparr>buffer = tstRespTwo_mem old, blength = 400, offset = 0\<rparr>,
      wrk = wrk_long_source, txtBuff = t0\<rparr>
   = Some (Device (tstDeviceTwo\<lparr>ipAddr :=
        take 32 long_source_text @ [CHR 0x49, CHR 0x1F] @ drop 34 long_source_text\<rparr>))"
  by code_simp

lemma inet_ntop_env_test: "inet_ntop env_test fam (bytes long_source_text) = long_source_text"
  unfolding env_test_def by code_simp

text \<open>
  Claim C10 says that the address of an emitted record is always the source address of
  the datagram.  The address text is copied into the 32 bytes of \<open>ipAddr\<close> without a
  bound, and \<open>port\<close> lies behind them.  For the second canned datagram received from an
  IPv6 address whose text has 38 characters, the port of the SRV record (8009, the bytes
  \<open>49 1F\<close>) is stored over the characters 32 and 33 of the text: the record that is
  emitted carries an address that is not the source address.
\<close>

theorem long_address_overwritten_by_port:
  "handle_datagram env_test tstRespTwo AF_INET6 (bytes long_source_text) 100 discover_state0
     = Some (Next 100 (discover_state0
          \<lparr>mem := tstRespTwo_mem (\<lambda>i. 0),
           retDevices := [tstDeviceTwo\<lparr>ipAddr :=
              take 32 long_source_text @ [CHR 0x49, CHR 0x1F] @ drop 34 long_source_text\<rparr>]\<rparr>)) \<and>
   inet_ntop env_test AF_INET6 (bytes long_source_text) = long_source_text \<and>
   length long_source_text = 38 \<and>
   take 32 long_source_text @ [CHR 0x49, CHR 0x1F] @ drop 34 long_source_text \<noteq> long_source_text"
proof -
  have 1: "handle_datagram env_test tstRespTwo AF_INET6 (bytes long_source_text) 100 discover_state0
     = Some (Next 100 (discover_state0
          \<lparr>mem := tstRespTwo_mem (\<lambda>i. 0),
           retDevices := [tstDeviceTwo\<lparr>ipAddr :=
              take 32 long_source_text @ [CHR 0x49, CHR 0x1F] @ drop 34 long_source_text\<rparr>]\<rparr>))"
    by (simp add: handle_datagram_def inet_ntop_env_test strcpy_long_source Append_tstRespTwo
          decode_long_source discover_state0_def)
  have 2: "length long_source_text = 38"
    by (simp add: long_source_text_def)
  have 3: "take 32 long_source_text @ [CHR 0x49, CHR 0x1F] @ drop 34 long_source_text
             \<noteq> long_source_text"
    by (simp add: long_source_text_def)
  from 1 2 3 inet_ntop_env_test show ?thesis by simp
qed

theorem long_address_overwritten_by_port_witness:
  "map_option (\<lambda>r. case r of Next t st \<Rightarrow> map ipAddr (retDevices st) | _ \<Rightarrow> [])
     (handle_datagram env_test tstRespTwo AF_INET6 (bytes long_source_text) 100 discover_state0)
     = Some [take 32 long_source_text @ [CHR 0x49, CHR 0x1F] @ drop 34 long_source_text]"
  using long_address_overwritten_by_port by simp

end
